theory Spec2Isabelle
  imports Main
begin

section \<open>JavaScript values read from JSON\<close>

text \<open>
  The token generation script (the \<^verbatim>\<open>#!/usr/bin/env node\<close> part of
  \<^verbatim>\<open>src/tokens/index.ts\<close>) reads \<^verbatim>\<open>design-tokens.json\<close> with
  \<^verbatim>\<open>JSON.parse\<close> and does four things with the value: it reads properties, maps
  over arrays, splices values into template literals and tests
  \<^verbatim>\<open>tokens.spacing || []\<close>. The value is any JSON value.

  A number is held as the text JavaScript prints for it (Number::toString); the script
  sees a number only through that text and through the zero test of \<^verbatim>\<open>||\<close>
  (\<^verbatim>\<open>0\<close> and \<^verbatim>\<open>-0\<close> both print as \<^verbatim>\<open>0\<close>). An object is
  the list of its members in the order of the JSON text; of a repeated key the last
  member counts, as in \<^verbatim>\<open>JSON.parse\<close>. \<^verbatim>\<open>undefined\<close> is not a JSON value:
  an evaluated JavaScript expression is a \<open>json option\<close>, \<open>None\<close> being
  \<^verbatim>\<open>undefined\<close>.
\<close>

datatype json =
    JNull
  | JBool bool
  | JNum string
  | JStr string
  | JArr "json list"
  | JObj "(string \<times> json) list"

text \<open>
  The exceptions the script can die of: the TypeError of an evaluation, the SyntaxError of
  \<^verbatim>\<open>JSON.parse\<close>, and the system error \<^verbatim>\<open>fs\<close> throws when the operating
  system refuses a call (\<open>IOError\<close>: ENOENT, EACCES, EISDIR, ENOSPC and the like).
\<close>

datatype error = TypeError | SyntaxError | IOError

definition bind :: "error + 'a \<Rightarrow> ('a \<Rightarrow> error + 'b) \<Rightarrow> error + 'b" where
  "bind m f = (case m of Inl e \<Rightarrow> Inl e | Inr x \<Rightarrow> f x)"

text \<open>A list of computations, run in order: the first exception is the result.\<close>

fun sequence :: "(error + 'a) list \<Rightarrow> error + 'a list" where
  "sequence [] = Inr []"
| "sequence (Inl e # rs) = Inl e"
| "sequence (Inr x # rs) = (case sequence rs of Inl e \<Rightarrow> Inl e | Inr xs \<Rightarrow> Inr (x # xs))"

text \<open>\<^verbatim>\<open>Array.prototype.join\<close> on strings.\<close>

fun js_join :: "string \<Rightarrow> string list \<Rightarrow> string" where
  "js_join sep [] = []"
| "js_join sep [x] = x"
| "js_join sep (x # y # ys) = x @ sep @ js_join sep (y # ys)"

definition own_property :: "(string \<times> json) list \<Rightarrow> string \<Rightarrow> json option" where
  "own_property kvs k = map_of (rev kvs) k"

text \<open>
  \<^verbatim>\<open>v.k\<close> for the property names the script reads (\<^verbatim>\<open>colors\<close>,
  \<^verbatim>\<open>typography\<close>, \<^verbatim>\<open>spacing\<close>, \<^verbatim>\<open>effects\<close>, \<^verbatim>\<open>name\<close>,
  \<^verbatim>\<open>value\<close>, \<^verbatim>\<open>fontFamily\<close>, \<^verbatim>\<open>fontSize\<close>, \<^verbatim>\<open>fontWeight\<close>,
  \<^verbatim>\<open>lineHeight\<close>), none of which a prototype provides: reading a property of
  \<^verbatim>\<open>null\<close> or \<^verbatim>\<open>undefined\<close> throws a TypeError, an object gives its own
  member, every other value gives \<^verbatim>\<open>undefined\<close>.
\<close>

fun js_get :: "json option \<Rightarrow> string \<Rightarrow> error + json option" where
  "js_get None k = Inl TypeError"
| "js_get (Some JNull) k = Inl TypeError"
| "js_get (Some (JObj kvs)) k = Inr (own_property kvs k)"
| "js_get (Some v) k = Inr None"

text \<open>
  ToString, as a template literal applies it to a substitution. An array prints as its
  elements joined by commas, \<^verbatim>\<open>null\<close> elements as the empty string. A plain object
  prints as \<^verbatim>\<open>[object Object]\<close> through \<^verbatim>\<open>Object.prototype.toString\<close>;
  when the JSON object has a member named \<^verbatim>\<open>toString\<close> of its own, that member is
  not callable and \<^verbatim>\<open>valueOf\<close> gives no primitive, so the conversion throws a
  TypeError.
\<close>

fun ToString :: "json \<Rightarrow> error + string" where
  "ToString JNull = Inr ''null''"
| "ToString (JBool b) = Inr (if b then ''true'' else ''false'')"
| "ToString (JNum s) = Inr s"
| "ToString (JStr s) = Inr s"
| "ToString (JArr xs) =
     bind (sequence (map (\<lambda>x. if x = JNull then Inr [] else ToString x) xs))
       (\<lambda>ss. Inr (js_join '','' ss))"
| "ToString (JObj kvs) =
     (if own_property kvs ''toString'' = None then Inr ''[object Object]'' else Inl TypeError)"

fun ToStringU :: "json option \<Rightarrow> error + string" where
  "ToStringU None = Inr ''undefined''"
| "ToStringU (Some v) = ToString v"

text \<open>ToBoolean, as \<^verbatim>\<open>||\<close> applies it.\<close>

fun truthy :: "json option \<Rightarrow> bool" where
  "truthy None = False"
| "truthy (Some JNull) = False"
| "truthy (Some (JBool b)) = b"
| "truthy (Some (JNum s)) = (s \<noteq> ''0'')"
| "truthy (Some (JStr s)) = (s \<noteq> [])"
| "truthy (Some (JArr xs)) = True"
| "truthy (Some (JObj kvs)) = True"

text \<open>
  \<^verbatim>\<open>v.map(f)\<close> where \<open>f\<close> gives a string: only an array has a callable
  \<^verbatim>\<open>map\<close>; on every other value, \<^verbatim>\<open>undefined\<close> included, the call throws a
  TypeError. The callback runs on the elements in index order.
\<close>

fun js_map :: "(json \<Rightarrow> error + string) \<Rightarrow> json option \<Rightarrow> error + string list" where
  "js_map f (Some (JArr xs)) = sequence (map f xs)"
| "js_map f v = Inl TypeError"

text \<open>\<^verbatim>\<open>${t.k}\<close> inside a template literal.\<close>

definition subst :: "json \<Rightarrow> string \<Rightarrow> error + string" where
  "subst t k = bind (js_get (Some t) k) ToStringU"

text \<open>Decimal text of a natural number (an array's \<^verbatim>\<open>length\<close> in a template).\<close>

fun show_nat :: "nat \<Rightarrow> string" where
  "show_nat n =
     (if n < 10 then [''0123456789'' ! n]
      else show_nat (n div 10) @ [''0123456789'' ! (n mod 10)])"

declare show_nat.simps [simp del]

section \<open>The file system and the console\<close>

text \<open>
  Paths are relative to \<^verbatim>\<open>rootDir\<close>. \<open>writes\<close> lists the
  \<^verbatim>\<open>fs.writeFileSync\<close> calls that succeeded, in order, \<open>console\<close> the messages
  printed. \<open>writeFileSync\<close> is the call on a working file system: every node is a
  regular file that can be read and written, and the directory \<^verbatim>\<open>src/tokens\<close>
  exists. The calls that can fail are \<open>readFileSync\<close> and \<open>try_writeFileSync\<close>
  further down.
\<close>

datatype stream = Stdout | Stderr

record world =
  files :: "string \<rightharpoonup> string"
  writes :: "(string \<times> string) list"
  console :: "(stream \<times> string) list"

definition writeFileSync :: "string \<Rightarrow> string \<Rightarrow> world \<Rightarrow> world" where
  "writeFileSync path content w =
     w\<lparr>files := (files w)(path \<mapsto> content), writes := writes w @ [(path, content)]\<rparr>"

definition console_log :: "string \<Rightarrow> world \<Rightarrow> world" where
  "console_log msg w = w\<lparr>console := console w @ [(Stdout, msg)]\<rparr>"

definition console_error :: "string \<Rightarrow> world \<Rightarrow> world" where
  "console_error msg w = w\<lparr>console := console w @ [(Stderr, msg)]\<rparr>"

text \<open>
  How the process ends: it runs to the end of the script, calls
  \<^verbatim>\<open>process.exit(n)\<close>, or dies of an exception nobody catches, for which Node
  exits with code 1.
\<close>

datatype status = Completed | Exited nat | Uncaught error

fun exit_code :: "status \<Rightarrow> nat" where
  "exit_code Completed = 0"
| "exit_code (Exited n) = n"
| "exit_code (Uncaught e) = 1"

definition and_then ::
  "(world \<Rightarrow> status \<times> world) \<Rightarrow> (world \<Rightarrow> status \<times> world) \<Rightarrow> world \<Rightarrow> status \<times> world" where
  "and_then f g w = (case f w of (Completed, w') \<Rightarrow> g w' | (st, w') \<Rightarrow> (st, w'))"

section \<open>The token generation script\<close>

definition nl :: string where
  "nl = [CHR 0x0A]"

definition quote :: string where
  "quote = [CHR 0x27]"

definition check_mark :: string where
  "check_mark = [CHR 0xE2, CHR 0x9C, CHR 0x93]"

definition cross_mark :: string where
  "cross_mark = [CHR 0xE2, CHR 0x9D, CHR 0x8C]"

definition check_box :: string where
  "check_box = [CHR 0xE2, CHR 0x9C, CHR 0x85]"

text \<open>A template's lines, each ended by a newline.\<close>

definition template :: "string list \<Rightarrow> string" where
  "template ls = concat (map (\<lambda>l. l @ nl) ls)"

definition tokensFile :: string where
  "tokensFile = ''design-tokens.json''"

subsection \<open>colors.ts\<close>

text \<open>The callback \<^verbatim>\<open>t => `  '${t.name}': '${t.value}',`\<close>.\<close>

definition name_value_entry :: "json \<Rightarrow> error + string" where
  "name_value_entry t =
     bind (subst t ''name'') (\<lambda>n.
     bind (subst t ''value'') (\<lambda>v.
     Inr (''  '' @ quote @ n @ quote @ '': '' @ quote @ v @ quote @ '','')))"

definition colorsContent :: "string list \<Rightarrow> string" where
  "colorsContent entries = template
     [''/**'',
      '' * Color Tokens'',
      '' * Generated from design-tokens.json'',
      '' * DO NOT EDIT: This file is auto-generated'',
      '' */'',
      '''',
      ''export const colors = {'',
      js_join nl entries,
      ''} as const;'',
      '''',
      ''export type ColorToken = keyof typeof colors;'']"

text \<open>\<^verbatim>\<open>tokens.colors.map(t => ...)\<close>\<close>

definition colors_map :: "json \<Rightarrow> error + string list" where
  "colors_map tokens = bind (js_get (Some tokens) ''colors'') (js_map name_value_entry)"

definition generate_colors :: "json \<Rightarrow> world \<Rightarrow> status \<times> world" where
  "generate_colors tokens w =
     (case colors_map tokens of
        Inl e \<Rightarrow> (Uncaught e, w)
      | Inr entries \<Rightarrow>
          (Completed,
           console_log (check_mark @ '' Generated colors.ts ('' @ show_nat (length entries) @ '' tokens)'')
             (writeFileSync ''src/tokens/colors.ts'' (colorsContent entries) w)))"

subsection \<open>typography.ts\<close>

definition typography_entry :: "json \<Rightarrow> error + string" where
  "typography_entry t =
     bind (subst t ''name'') (\<lambda>n.
     bind (subst t ''fontFamily'') (\<lambda>ff.
     bind (subst t ''fontSize'') (\<lambda>fs.
     bind (subst t ''fontWeight'') (\<lambda>fw.
     bind (subst t ''lineHeight'') (\<lambda>lh.
     Inr (''  '' @ quote @ n @ quote @ '': {'' @ nl @
          ''    fontFamily: '' @ quote @ ff @ quote @ '','' @ nl @
          ''    fontSize: '' @ quote @ fs @ quote @ '','' @ nl @
          ''    fontWeight: '' @ fw @ '','' @ nl @
          ''    lineHeight: '' @ quote @ lh @ quote @ '','' @ nl @
          ''  },''))))))"

definition typographyContent :: "string list \<Rightarrow> string" where
  "typographyContent entries = template
     [''/**'',
      '' * Typography Tokens'',
      '' * Generated from design-tokens.json'',
      '' * DO NOT EDIT: This file is auto-generated'',
      '' */'',
      '''',
      ''export const typography = {'',
      js_join nl entries,
      ''} as const;'',
      '''',
      ''export type TypographyToken = keyof typeof typography;'']"

text \<open>\<^verbatim>\<open>tokens.typography.map(t => ...)\<close>\<close>

definition typography_map :: "json \<Rightarrow> error + string list" where
  "typography_map tokens = bind (js_get (Some tokens) ''typography'') (js_map typography_entry)"

definition generate_typography :: "json \<Rightarrow> world \<Rightarrow> status \<times> world" where
  "generate_typography tokens w =
     (case typography_map tokens of
        Inl e \<Rightarrow> (Uncaught e, w)
      | Inr entries \<Rightarrow>
          (Completed,
           console_log
             (check_mark @ '' Generated typography.ts ('' @ show_nat (length entries) @ '' tokens)'')
             (writeFileSync ''src/tokens/typography.ts'' (typographyContent entries) w)))"

subsection \<open>spacing.ts\<close>

text \<open>\<^verbatim>\<open>const spacingTokens = tokens.spacing || [];\<close>\<close>

definition spacingTokens :: "json \<Rightarrow> error + json option" where
  "spacingTokens tokens =
     bind (js_get (Some tokens) ''spacing'')
       (\<lambda>v. Inr (if truthy v then v else Some (JArr [])))"

definition spacingContent :: "string list \<Rightarrow> string" where
  "spacingContent entries = template
     [''/**'',
      '' * Spacing Tokens'',
      '' * Generated from design-tokens.json'',
      '' * DO NOT EDIT: This file is auto-generated'',
      '' */'',
      '''',
      ''export const spacing = {'',
      js_join nl entries,
      ''} as const;'',
      '''',
      ''export type SpacingToken = keyof typeof spacing;'']"

text \<open>\<^verbatim>\<open>spacingTokens.map(t => ...)\<close>\<close>

definition spacing_map :: "json \<Rightarrow> error + string list" where
  "spacing_map tokens = bind (spacingTokens tokens) (js_map name_value_entry)"

definition generate_spacing :: "json \<Rightarrow> world \<Rightarrow> status \<times> world" where
  "generate_spacing tokens w =
     (case spacing_map tokens of
        Inl e \<Rightarrow> (Uncaught e, w)
      | Inr entries \<Rightarrow>
          (Completed,
           console_log
             (check_mark @ '' Generated spacing.ts ('' @ show_nat (length entries) @ '' tokens)'')
             (writeFileSync ''src/tokens/spacing.ts'' (spacingContent entries) w)))"

subsection \<open>effects.ts\<close>

definition effectsContent :: "string list \<Rightarrow> string" where
  "effectsContent entries = template
     [''/**'',
      '' * Effect Tokens'',
      '' * Generated from design-tokens.json'',
      '' * DO NOT EDIT: This file is auto-generated'',
      '' */'',
      '''',
      ''export const effects = {'',
      js_join nl entries,
      ''} as const;'',
      '''',
      ''export type EffectToken = keyof typeof effects;'']"

text \<open>\<^verbatim>\<open>tokens.effects.map(t => ...)\<close>\<close>

definition effects_map :: "json \<Rightarrow> error + string list" where
  "effects_map tokens = bind (js_get (Some tokens) ''effects'') (js_map name_value_entry)"

definition generate_effects :: "json \<Rightarrow> world \<Rightarrow> status \<times> world" where
  "generate_effects tokens w =
     (case effects_map tokens of
        Inl e \<Rightarrow> (Uncaught e, w)
      | Inr entries \<Rightarrow>
          (Completed,
           console_log
             (check_mark @ '' Generated effects.ts ('' @ show_nat (length entries) @ '' tokens)'')
             (writeFileSync ''src/tokens/effects.ts'' (effectsContent entries) w)))"

subsection \<open>The script\<close>

text \<open>
  The script from \<^verbatim>\<open>// Generate colors.ts\<close> on, for the parsed document. The length
  printed after each write is that of the array just mapped, which is the number of
  entries the map gave.
\<close>

definition generate_modules :: "json \<Rightarrow> world \<Rightarrow> status \<times> world" where
  "generate_modules tokens =
     and_then (generate_colors tokens)
    (and_then (generate_typography tokens)
    (and_then (generate_spacing tokens)
    (and_then (generate_effects tokens)
      (\<lambda>w. (Completed, console_log (nl @ check_box @ '' Token generation complete!'') w)))))"

text \<open>
  The whole script. \<^verbatim>\<open>JSON.parse\<close> is the runtime's and is a parameter: \<open>None\<close>
  is its SyntaxError.
\<close>

definition generate_tokens :: "(string \<Rightarrow> json option) \<Rightarrow> world \<Rightarrow> status \<times> world" where
  "generate_tokens JSON_parse w =
     (case files w tokensFile of
        None \<Rightarrow> (Exited 1, console_error (cross_mark @ '' design-tokens.json not found'') w)
      | Some text \<Rightarrow>
          (case JSON_parse text of
             None \<Rightarrow> (Uncaught SyntaxError, w)
           | Some tokens \<Rightarrow> generate_modules tokens w))"

text \<open>One run of the script on a file system, with an empty record of effects.\<close>

definition fresh :: "(string \<rightharpoonup> string) \<Rightarrow> world" where
  "fresh fs = \<lparr>files = fs, writes = [], console = []\<rparr>"

text \<open>The four modules the script writes, in the order it writes them.\<close>

definition token_paths :: "string list" where
  "token_paths =
     [''src/tokens/colors.ts'', ''src/tokens/typography.ts'',
      ''src/tokens/spacing.ts'', ''src/tokens/effects.ts'']"

text \<open>
  \<open>has_array tokens k\<close>: the document has an array under \<open>k\<close>. A document without it
  is missing that category's array.
\<close>

definition has_array :: "json \<Rightarrow> string \<Rightarrow> bool" where
  "has_array tokens k =
     (case js_get (Some tokens) k of Inr (Some (JArr xs)) \<Rightarrow> True | _ \<Rightarrow> False)"

text \<open>
  The effects \<open>ws\<close> (writes) and \<open>ms\<close> (messages) added to a world; of two writes to
  one path the later stays.
\<close>

definition perform :: "(string \<times> string) list \<Rightarrow> (stream \<times> string) list \<Rightarrow> world \<Rightarrow> world" where
  "perform ws ms w =
     w\<lparr>files := files w ++ map_of (rev ws), writes := writes w @ ws, console := console w @ ms\<rparr>"

text \<open>
  \<open>uniform g\<close>: a step ends in the same status and performs the same writes and
  messages whatever world it starts in, and writes token modules only.
\<close>

definition uniform :: "(world \<Rightarrow> status \<times> world) \<Rightarrow> bool" where
  "uniform g \<longleftrightarrow>
     (\<exists>st ws ms. (\<forall>w. g w = (st, perform ws ms w)) \<and> set (map fst ws) \<subseteq> set token_paths)"

text \<open>A run of the script on a file system, its effects recorded from nothing.\<close>

definition run_tokens :: "(string \<Rightarrow> json option) \<Rightarrow> (string \<rightharpoonup> string) \<Rightarrow> status \<times> world" where
  "run_tokens JSON_parse fs = generate_tokens JSON_parse (fresh fs)"

subsection \<open>The script on a file system whose calls can fail\<close>












subsection \<open>The token document of the specification\<close>




subsection \<open>Documents used as concrete inputs\<close>

text \<open>
  The token document of the specification's scenario, a document with all four arrays,
  the empty object, a document without \<^verbatim>\<open>effects\<close> and one without
  \<^verbatim>\<open>spacing\<close>. \<open>parse_sample\<close> agrees with \<^verbatim>\<open>JSON.parse\<close> on the five
  texts and on \<^verbatim>\<open>{\<close>, and is not asked about any other.
\<close>

definition scenario_text :: string where
  \<open>scenario_text = ''{"colors":[{"name":"primary","value":"#3B82F6"}]}''\<close>

definition scenario_tokens :: json where
  "scenario_tokens =
     JObj [(''colors'', JArr [JObj [(''name'', JStr ''primary''), (''value'', JStr ''#3B82F6'')]])]"

definition sample_text :: string where
  \<open>sample_text =
     ''{"colors":[{"name":"primary","value":"#3B82F6"},{"name":"accent","value":"#F59E0B"}],'' @
     ''"typography":[{"name":"body","fontFamily":"Inter","fontSize":"16px","fontWeight":400,"lineHeight":"24px"}],'' @
     ''"spacing":[{"name":"md","value":"16px"}],"effects":[]}''\<close>

definition sample_tokens :: json where
  "sample_tokens =
     JObj [(''colors'',
              JArr [JObj [(''name'', JStr ''primary''), (''value'', JStr ''#3B82F6'')],
                    JObj [(''name'', JStr ''accent''), (''value'', JStr ''#F59E0B'')]]),
           (''typography'',
              JArr [JObj [(''name'', JStr ''body''), (''fontFamily'', JStr ''Inter''),
                          (''fontSize'', JStr ''16px''), (''fontWeight'', JNum ''400''),
                          (''lineHeight'', JStr ''24px'')]]),
           (''spacing'', JArr [JObj [(''name'', JStr ''md''), (''value'', JStr ''16px'')]]),
           (''effects'', JArr [])]"

definition no_effects_text :: string where
  \<open>no_effects_text = ''{"colors":[],"typography":[],"spacing":[]}''\<close>

definition no_effects_tokens :: json where
  "no_effects_tokens =
     JObj [(''colors'', JArr []), (''typography'', JArr []), (''spacing'', JArr [])]"

definition no_spacing_text :: string where
  \<open>no_spacing_text = ''{"colors":[],"typography":[],"effects":[]}''\<close>

definition no_spacing_tokens :: json where
  "no_spacing_tokens =
     JObj [(''colors'', JArr []), (''typography'', JArr []), (''effects'', JArr [])]"

definition parse_sample :: "string \<Rightarrow> json option" where
  "parse_sample =
     [scenario_text \<mapsto> scenario_tokens, sample_text \<mapsto> sample_tokens, ''{}'' \<mapsto> JObj [],
      no_effects_text \<mapsto> no_effects_tokens, no_spacing_text \<mapsto> no_spacing_tokens]"




section \<open>The component generation script\<close>

text \<open>
  \<^verbatim>\<open>generate-components\<close> (the script whose header reads "Generate Component
  Stubs"): eight \<^verbatim>\<open>console.log\<close> calls and nothing else. It reads no file and writes
  none.
\<close>

definition package_mark :: string where
  "package_mark = [CHR 0xF0, CHR 0x9F, CHR 0x93, CHR 0xA6]"

definition generate_components :: "world \<Rightarrow> status \<times> world" where
  "generate_components w =
     (Completed,
      fold console_log
        [package_mark @ '' Component generation'',
         nl @ ''This script would generate component stubs from screen exports.'',
         ''Currently implemented in bootstrap.js for Bootstrap mode.'',
         nl @ ''For Screen Export mode, this would:'',
         ''1. Read screen-export.json'',
         ''2. Generate screen component files'',
         ''3. Map component instances to catalog references'',
         nl @ ''To be implemented in future iterations.'']
        w)"

text \<open>
  A message reports a \<^verbatim>\<open>ManualEditConflict\<close> for a path when it names both
  (the specification: "emit a ManualEditConflict warning identifying the path").
\<close>

fun starts_with :: "string \<Rightarrow> string \<Rightarrow> bool" where
  "starts_with [] s = True"
| "starts_with (p # ps) [] = False"
| "starts_with (p # ps) (c # cs) = (p = c \<and> starts_with ps cs)"

fun contains :: "string \<Rightarrow> string \<Rightarrow> bool" where
  "contains p [] = (p = [])"
| "contains p (c # cs) = (starts_with p (c # cs) \<or> contains p cs)"

definition conflict_reports :: "string \<Rightarrow> world \<Rightarrow> (stream \<times> string) list" where
  "conflict_reports path w =
     filter (\<lambda>(s, msg). contains ''ManualEditConflict'' msg \<and> contains path msg) (console w)"





section \<open>The token fallback pattern\<close>

text \<open>
  The pattern the component guide gives for a styled value ("Handle Missing Data"):
  \<^verbatim>\<open>
  const backgroundColor = styles.backgroundColor?.tokenName
    ? colors[styles.backgroundColor.tokenName]
    : styles.backgroundColor?.value || colors.default;
  \<close>
  A styled value of the catalog is \<^verbatim>\<open>{ "value": ..., "tokenName": ... }\<close>;
  \<open>None\<close> in a field is \<^verbatim>\<open>undefined\<close> or \<^verbatim>\<open>null\<close>, which
  \<^verbatim>\<open>?.\<close> and the truth test treat alike; the field \<open>val\<close> is the catalog's
  \<^verbatim>\<open>value\<close>. \<open>colors\<close> is the generated token module's object, as the map of its
  own properties (looked up by a name that is no property of \<^verbatim>\<open>Object.prototype\<close>).
\<close>

record StyledValue =
  val :: "json option"
  tokenName :: "string option"

definition backgroundColor :: "(string \<rightharpoonup> json) \<Rightarrow> StyledValue option \<Rightarrow> json option" where
  "backgroundColor colors sv =
     (case (case sv of None \<Rightarrow> None | Some s \<Rightarrow> tokenName s) of
        Some n \<Rightarrow>
          if n \<noteq> [] then colors n
          else
            (let v = (case sv of None \<Rightarrow> None | Some s \<Rightarrow> val s)
             in if truthy v then v else colors ''default'')
      | None \<Rightarrow>
          (let v = (case sv of None \<Rightarrow> None | Some s \<Rightarrow> val s)
           in if truthy v then v else colors ''default''))"

section \<open>The dependency graph builder\<close>

text \<open>
  Modelled from the spec: a catalog entry, as far as the Dependency Graph Builder reads
  it (data model: an external name and a list of child references, each literal content
  or a \<^verbatim>\<open>componentRef\<close> naming another entry). The repository's files hold no
  code that reads the component catalog.
\<close>

datatype child = LiteralContent string | ComponentRef string

text \<open>Modelled from the spec: the catalog entry itself, by name and children.\<close>

record CatalogEntry =
  entry_name :: string
  entry_children :: "child list"

text \<open>Modelled from the spec: the names an entry's children refer to.\<close>

fun component_refs :: "child list \<Rightarrow> string list" where
  "component_refs [] = []"
| "component_refs (ComponentRef b # cs) = b # component_refs cs"
| "component_refs (LiteralContent s # cs) = component_refs cs"

text \<open>
  Modelled from the spec: the edge relation of the graph ("an edge A -> B exists if
  CatalogEntry A contains a child with componentRef = B").
\<close>

definition references :: "CatalogEntry \<Rightarrow> CatalogEntry \<Rightarrow> bool" where
  "references a b \<longleftrightarrow> entry_name b \<in> set (component_refs (entry_children a))"

text \<open>Modelled from the spec: the edges of the graph over the entries \<open>es\<close>, as a list.\<close>

definition edges :: "CatalogEntry list \<Rightarrow> (CatalogEntry \<times> CatalogEntry) list" where
  "edges es = concat (map (\<lambda>a. map (\<lambda>b. (a, b)) (filter (references a) es)) es)"

text \<open>Modelled from the spec: an entry takes part in a cycle when it reaches itself.\<close>

definition on_cycle :: "CatalogEntry list \<Rightarrow> CatalogEntry \<Rightarrow> bool" where
  "on_cycle es e \<longleftrightarrow> (e, e) \<in> (set (edges es))\<^sup>+"

text \<open>Modelled from the spec: the fatal errors of the pipeline (error taxonomy).\<close>

datatype pipeline_error = SchemaError string | CyclicDependencyError "string list"

text \<open>
  Modelled from the spec: the topological order of the Dependency Graph Builder, which
  is not in the repository's files. Leaves come first; an entry is ready when none of the
  entries it references is still to be placed; the entries that are ready together keep
  the order of the catalog ("entries with identical dependency depth are ordered by
  first-appearance"). When entries remain and none is ready there is a cycle: the result
  is the \<^verbatim>\<open>CyclicDependencyError\<close> naming the entries on a cycle, and no order.
\<close>

definition is_ready :: "CatalogEntry list \<Rightarrow> CatalogEntry \<Rightarrow> bool" where
  "is_ready remaining e \<longleftrightarrow> filter (references e) remaining = []"

text \<open>
  Modelled from the spec: the order itself, layer by layer; \<open>placed\<close> holds the names
  already ordered.
\<close>

function build_order :: "CatalogEntry list \<Rightarrow> string list \<Rightarrow> pipeline_error + string list" where
  "build_order remaining placed =
     (if remaining = [] then Inr placed
      else if filter (is_ready remaining) remaining = []
        then Inl (CyclicDependencyError (map entry_name (filter (on_cycle remaining) remaining)))
      else build_order (filter (\<lambda>e. \<not> is_ready remaining e) remaining)
             (placed @ map entry_name (filter (is_ready remaining) remaining)))"
  by pat_completeness auto
termination
proof (relation "measure (\<lambda>(remaining, placed). length remaining)")
  show "wf (measure (\<lambda>(remaining, placed). length remaining))" by simp
next
  fix remaining :: "CatalogEntry list" and placed :: "string list"
  assume "filter (is_ready remaining) remaining \<noteq> []"
  then have "length (filter (is_ready remaining) remaining) > 0" by simp
  then have "length (filter (\<lambda>e. \<not> is_ready remaining e) remaining) < length remaining"
    using sum_length_filter_compl[of "is_ready remaining" remaining] by arith
  then show "((filter (\<lambda>e. \<not> is_ready remaining e) remaining,
       placed @ map entry_name (filter (is_ready remaining) remaining)), (remaining, placed))
     \<in> measure (\<lambda>(remaining, placed). length remaining)"
    by simp
qed

declare build_order.simps [simp del]

text \<open>
  Modelled from the spec: a run from the Dependency Graph Builder on (control flow:
  Graph Builder, then the Stub Generator/Merger and the stages after it). Every stage
  that writes comes after the ordering and is the parameter \<open>emit\<close>; a failure of the
  ordering aborts the run with the world as it was ("aborts before any write").
\<close>

definition generate_artifacts ::
  "(string list \<Rightarrow> world \<Rightarrow> world) \<Rightarrow> CatalogEntry list \<Rightarrow> world \<Rightarrow>
     (pipeline_error + string list) \<times> world" where
  "generate_artifacts emit catalog w =
     (case build_order catalog [] of
        Inl e \<Rightarrow> (Inl e, w)
      | Inr order \<Rightarrow> (Inr order, emit order w))"

text \<open>The catalog X -> Y -> X.\<close>

definition x_entry :: CatalogEntry where
  "x_entry = \<lparr>entry_name = ''X'', entry_children = [ComponentRef ''Y'']\<rparr>"

definition y_entry :: CatalogEntry where
  "y_entry = \<lparr>entry_name = ''Y'', entry_children = [ComponentRef ''X'']\<rparr>"

section \<open>The naming normalizer\<close>

text \<open>
  Modelled from the spec: the configuration of the Naming Normalizer (the prefix
  segments to strip and the pattern prefixes of external libraries) and the NamingAlias
  record of the registry (external name, generated identifier, external-library flag).
  The normalizer is not in the repository's files; the bootstrap guide gives its rules
  and the registry's format.
\<close>

record NormalizerConfig =
  prefix_segments :: "string list"
  external_patterns :: "string list"

text \<open>
  Modelled from the spec: one alias of the naming registry (the registry is the list of
  its aliases, in the order they were created).
\<close>

record NamingAlias =
  externalName :: string
  codeName :: string
  isExternalLibrary :: bool

text \<open>
  Modelled from the spec: rule (1), "strip configured prefix segments (exact
  path-segment match, case-sensitive)": the name is cut at \<^verbatim>\<open>/\<close> and the leading
  segments that are configured are dropped.
\<close>

fun split_on :: "char \<Rightarrow> string \<Rightarrow> string list" where
  "split_on c [] = [[]]"
| "split_on c (x # xs) =
     (if x = c then [] # split_on c xs
      else (case split_on c xs of s # ss \<Rightarrow> (x # s) # ss | [] \<Rightarrow> [[x]]))"

text \<open>Modelled from the spec: rule (1) on the segments of a name.\<close>

definition strip_prefixes :: "NormalizerConfig \<Rightarrow> string \<Rightarrow> string list" where
  "strip_prefixes cfg ext =
     dropWhile (\<lambda>s. s \<in> set (prefix_segments cfg)) (split_on (CHR ''/'') ext)"

text \<open>
  Modelled from the spec: rule (2), "convert the remainder to a fixed identifier casing",
  which the bootstrap guide gives as PascalCase (\<^verbatim>\<open>button-primary\<close> becomes
  \<^verbatim>\<open>ButtonPrimary\<close>): letters and digits are kept, every other character ends a
  word, and the first character of a word is put in upper case.
\<close>

definition is_alnum :: "char \<Rightarrow> bool" where
  "is_alnum c =
     (let n = (of_char c :: nat)
      in (48 \<le> n \<and> n \<le> 57) \<or> (65 \<le> n \<and> n \<le> 90) \<or> (97 \<le> n \<and> n \<le> 122))"

text \<open>Modelled from the spec: the upper-case form of an ASCII letter (rule (2)).\<close>

definition to_upper :: "char \<Rightarrow> char" where
  "to_upper c =
     (let n = (of_char c :: nat) in if 97 \<le> n \<and> n \<le> 122 then char_of (n - 32) else c)"

text \<open>
  Modelled from the spec: rule (2), character by character; \<open>up\<close> says that the next
  letter starts a word.
\<close>

fun pascal :: "bool \<Rightarrow> string \<Rightarrow> string" where
  "pascal up [] = []"
| "pascal up (c # cs) =
     (if is_alnum c then (if up then to_upper c else c) # pascal False cs else pascal True cs)"

text \<open>Modelled from the spec: rules (1) and (2) together, the identifier before rule (4).\<close>

definition sanitize :: "NormalizerConfig \<Rightarrow> string \<Rightarrow> string" where
  "sanitize cfg ext = pascal True (js_join ''/'' (strip_prefixes cfg ext))"

text \<open>
  Modelled from the spec: rule (3), "detect external-library membership via configured
  pattern prefixes and mark accordingly".
\<close>

definition is_external :: "NormalizerConfig \<Rightarrow> string \<Rightarrow> bool" where
  "is_external cfg ext = list_ex (\<lambda>p. starts_with p ext) (external_patterns cfg)"

text \<open>
  Modelled from the spec: rule (4), "on collision with an existing different-origin
  alias, append a numeric disambiguating suffix in first-seen order": the first of
  \<open>base2\<close>, \<open>base3\<close>, ... that no alias has. Among \<open>length taken + 1\<close> candidates one
  is free (\<open>disambiguate_fresh\<close> below), so the last case is never taken.
\<close>

definition disambiguate :: "string list \<Rightarrow> string \<Rightarrow> string" where
  "disambiguate taken base =
     (if base \<notin> set taken then base
      else (case find (\<lambda>c. c \<notin> set taken)
                   (map (\<lambda>k. base @ show_nat k) [2 ..< length taken + 3]) of
              Some c \<Rightarrow> c
            | None \<Rightarrow> base))"

text \<open>
  Modelled from the spec: the Naming Normalizer with its registry (NamingAlias
  lifecycle: "created the first time a name is seen, read on every subsequent run to
  guarantee the same identifier is reused"). A name the registry knows gets the recorded
  identifier and the registry stays as it is; a new name gets the sanitized, disambiguated
  identifier and one alias is added at the end.
\<close>

definition lookup_alias :: "NamingAlias list \<Rightarrow> string \<Rightarrow> NamingAlias option" where
  "lookup_alias reg ext = find (\<lambda>a. externalName a = ext) reg"

text \<open>Modelled from the spec: the identifier the registry records for a name, if any.\<close>

definition code_of :: "NamingAlias list \<Rightarrow> string \<Rightarrow> string option" where
  "code_of reg ext = map_option codeName (lookup_alias reg ext)"

text \<open>
  Modelled from the spec: the normalizer on one external name: the identifier and the
  registry after it.
\<close>

definition normalize_name ::
  "NormalizerConfig \<Rightarrow> NamingAlias list \<Rightarrow> string \<Rightarrow> string \<times> NamingAlias list" where
  "normalize_name cfg reg ext =
     (case lookup_alias reg ext of
        Some a \<Rightarrow> (codeName a, reg)
      | None \<Rightarrow>
          (let ident = disambiguate (map codeName reg) (sanitize cfg ext)
           in (ident,
               reg @ [\<lparr>externalName = ext, codeName = ident,
                        isExternalLibrary = is_external cfg ext\<rparr>])))"

text \<open>
  Modelled from the spec: one run of the normalizer over the names of a catalog, in
  catalog order, the registry passed from name to name. The result pairs every name with
  its identifier.
\<close>

fun normalize_all ::
  "NormalizerConfig \<Rightarrow> NamingAlias list \<Rightarrow> string list \<Rightarrow>
     (string \<times> string) list \<times> NamingAlias list" where
  "normalize_all cfg reg [] = ([], reg)"
| "normalize_all cfg reg (x # xs) =
     (case normalize_name cfg reg x of
        (ident, reg') \<Rightarrow>
          (case normalize_all cfg reg' xs of (ids, reg'') \<Rightarrow> ((x, ident) # ids, reg'')))"

text \<open>The rules of the bootstrap guide.\<close>

definition guide_config :: NormalizerConfig where
  "guide_config =
     \<lparr>prefix_segments = [''DS'', ''Components'', ''Primitive''],
      external_patterns = [''icon/'', ''@heroicons/'']\<rparr>"

section \<open>Basic facts\<close>

lemma bind_simps:
  "bind (Inl e) f = Inl e"
  "bind (Inr x) f = f x"
  by (simp_all add: bind_def)

subsection \<open>Effects\<close>

lemma perform_empty: "perform [] [] w = w"
  by (simp add: perform_def)

lemma writeFileSync_perform: "writeFileSync p c w = perform [(p, c)] [] w"
  by (simp add: writeFileSync_def perform_def map_add_def fun_eq_iff)

lemma console_log_perform: "console_log m w = perform [] [(Stdout, m)] w"
  by (simp add: console_log_def perform_def)

lemma perform_perform:
  "perform ws2 ms2 (perform ws1 ms1 w) = perform (ws1 @ ws2) (ms1 @ ms2) w"
  by (simp add: perform_def map_add_assoc [symmetric] del: map_add_assoc)

lemma writes_perform: "writes (perform ws ms w) = writes w @ ws"
  by (simp add: perform_def)

lemma files_perform_last:
  "files (perform ws ms w) p = (case map_of (rev ws) p of None \<Rightarrow> files w p | Some c \<Rightarrow> Some c)"
  by (simp add: perform_def map_add_def)

lemma map_of_rev_outside:
  "set (map fst ws) \<subseteq> S \<Longrightarrow> p \<notin> S \<Longrightarrow> map_of (rev ws) p = None"
  by (simp add: map_of_eq_None_iff subset_iff) blast

lemma files_perform_outside:
  "set (map fst ws) \<subseteq> S \<Longrightarrow> p \<notin> S \<Longrightarrow> files (perform ws ms w) p = files w p"
  by (simp add: perform_def map_add_def map_of_rev_outside)

lemma perform_fresh_twice:
  "perform ws ms (fresh (files (perform ws ms (fresh fs)))) = perform ws ms (fresh fs)"
  by (simp add: perform_def fresh_def map_add_def fun_eq_iff split: option.splits)

subsection \<open>Every step of the script is uniform\<close>

lemma uniformI:
  "(\<And>w. g w = (st, perform ws ms w)) \<Longrightarrow> set (map fst ws) \<subseteq> set token_paths \<Longrightarrow> uniform g"
  unfolding uniform_def by blast

lemma uniform_and_then:
  assumes "uniform f" "uniform g"
  shows "uniform (and_then f g)"
proof -
  from assms(1) obtain sf wf mf where f: "\<And>w. f w = (sf, perform wf mf w)"
    and pf: "set (map fst wf) \<subseteq> set token_paths"
    unfolding uniform_def by blast
  from assms(2) obtain sg wg mg where g: "\<And>w. g w = (sg, perform wg mg w)"
    and pg: "set (map fst wg) \<subseteq> set token_paths"
    unfolding uniform_def by blast
  show ?thesis
  proof (cases "sf = Completed")
    case True
    have "\<And>w. and_then f g w = (sg, perform (wf @ wg) (mf @ mg) w)"
      by (simp add: and_then_def f g True perform_perform)
    then show ?thesis using pf pg by (intro uniformI[where ws = "wf @ wg"]) auto
  next
    case False
    have "\<And>w. and_then f g w = (sf, perform wf mf w)"
      using False by (cases sf) (simp_all add: and_then_def f)
    then show ?thesis using pf by (rule uniformI)
  qed
qed

lemma uniform_stage:
  assumes "\<And>w. g w = (case m of Inl e \<Rightarrow> (Uncaught e, w)
                       | Inr es \<Rightarrow> (Completed, console_log (msg es) (writeFileSync p (c es) w)))"
    and "p \<in> set token_paths"
  shows "uniform g"
proof (cases m)
  case (Inl e)
  then have "\<And>w. g w = (Uncaught e, perform [] [] w)"
    by (simp add: assms(1) perform_empty)
  then show ?thesis by (rule uniformI) simp
next
  case (Inr es)
  then have "\<And>w. g w = (Completed, perform [(p, c es)] [(Stdout, msg es)] w)"
    by (simp add: assms(1) writeFileSync_perform console_log_perform perform_perform)
  then show ?thesis by (rule uniformI) (simp add: assms(2))
qed

lemma uniform_generate_colors: "uniform (generate_colors tokens)"
  by (rule uniform_stage[where m = "colors_map tokens" and p = "''src/tokens/colors.ts''"])
     (simp_all add: generate_colors_def token_paths_def)

lemma uniform_generate_typography: "uniform (generate_typography tokens)"
  by (rule uniform_stage[where m = "typography_map tokens" and p = "''src/tokens/typography.ts''"])
     (simp_all add: generate_typography_def token_paths_def)

lemma uniform_generate_spacing: "uniform (generate_spacing tokens)"
  by (rule uniform_stage[where m = "spacing_map tokens" and p = "''src/tokens/spacing.ts''"])
     (simp_all add: generate_spacing_def token_paths_def)

lemma uniform_generate_effects: "uniform (generate_effects tokens)"
  by (rule uniform_stage[where m = "effects_map tokens" and p = "''src/tokens/effects.ts''"])
     (simp_all add: generate_effects_def token_paths_def)

lemma uniform_generate_modules: "uniform (generate_modules tokens)"
  unfolding generate_modules_def
  by (intro uniform_and_then uniform_generate_colors uniform_generate_typography
        uniform_generate_spacing uniform_generate_effects
        uniformI[where ws = "[]" and st = Completed and
          ms = "[(Stdout, nl @ check_box @ '' Token generation complete!'')]"])
     (simp_all add: console_log_perform)

lemma tokensFile_not_token_path: "tokensFile \<notin> set token_paths"
  by (simp add: tokensFile_def token_paths_def)

subsection \<open>The script, stage by stage\<close>

lemma generate_modules_unfold:
  "generate_modules tokens w =
     (case colors_map tokens of
        Inl e \<Rightarrow> (Uncaught e, w)
      | Inr cl \<Rightarrow>
     (case typography_map tokens of
        Inl e \<Rightarrow>
          (Uncaught e,
           perform [(''src/tokens/colors.ts'', colorsContent cl)]
             [(Stdout, check_mark @ '' Generated colors.ts ('' @ show_nat (length cl) @ '' tokens)'')] w)
      | Inr yl \<Rightarrow>
     (case spacing_map tokens of
        Inl e \<Rightarrow>
          (Uncaught e,
           perform [(''src/tokens/colors.ts'', colorsContent cl),
                    (''src/tokens/typography.ts'', typographyContent yl)]
             [(Stdout, check_mark @ '' Generated colors.ts ('' @ show_nat (length cl) @ '' tokens)''),
              (Stdout, check_mark @ '' Generated typography.ts ('' @ show_nat (length yl) @ '' tokens)'')] w)
      | Inr sl \<Rightarrow>
     (case effects_map tokens of
        Inl e \<Rightarrow>
          (Uncaught e,
           perform [(''src/tokens/colors.ts'', colorsContent cl),
                    (''src/tokens/typography.ts'', typographyContent yl),
                    (''src/tokens/spacing.ts'', spacingContent sl)]
             [(Stdout, check_mark @ '' Generated colors.ts ('' @ show_nat (length cl) @ '' tokens)''),
              (Stdout, check_mark @ '' Generated typography.ts ('' @ show_nat (length yl) @ '' tokens)''),
              (Stdout, check_mark @ '' Generated spacing.ts ('' @ show_nat (length sl) @ '' tokens)'')] w)
      | Inr el \<Rightarrow>
          (Completed,
           perform [(''src/tokens/colors.ts'', colorsContent cl),
                    (''src/tokens/typography.ts'', typographyContent yl),
                    (''src/tokens/spacing.ts'', spacingContent sl),
                    (''src/tokens/effects.ts'', effectsContent el)]
             [(Stdout, check_mark @ '' Generated colors.ts ('' @ show_nat (length cl) @ '' tokens)''),
              (Stdout, check_mark @ '' Generated typography.ts ('' @ show_nat (length yl) @ '' tokens)''),
              (Stdout, check_mark @ '' Generated spacing.ts ('' @ show_nat (length sl) @ '' tokens)''),
              (Stdout, check_mark @ '' Generated effects.ts ('' @ show_nat (length el) @ '' tokens)''),
              (Stdout, nl @ check_box @ '' Token generation complete!'')] w)))))"
  by (simp add: generate_modules_def and_then_def generate_colors_def generate_typography_def
      generate_spacing_def generate_effects_def writeFileSync_perform console_log_perform
      perform_perform split: sum.splits)

lemma generate_modules_status:
  "(fst (generate_modules tokens w) = Completed) =
     (map fst (writes (snd (generate_modules tokens w))) = map fst (writes w) @ token_paths)"
  by (simp add: generate_modules_unfold writes_perform token_paths_def split: sum.splits)

lemma generate_modules_exit_code:
  "exit_code (fst (generate_modules tokens w)) =
     (if fst (generate_modules tokens w) = Completed then 0 else 1)"
  by (simp add: generate_modules_unfold split: sum.splits)

subsection \<open>Mapped arrays\<close>






subsection \<open>Every exception of the stages is a TypeError\<close>

lemma js_get_TypeError: "js_get v k = Inl e \<Longrightarrow> e = TypeError"
  by (cases "(v, k)" rule: js_get.cases) simp_all

lemma sequence_map_Inl: "sequence (map f xs) = Inl e \<Longrightarrow> \<exists>x\<in>set xs. f x = Inl e"
proof (induction xs)
  case Nil
  then show ?case by simp
next
  case (Cons x xs)
  then show ?case
    by (cases "f x"; cases "sequence (map f xs)") auto
qed

lemma ToString_TypeError: "ToString v = Inl e \<Longrightarrow> e = TypeError"
proof (induction v arbitrary: e rule: ToString.induct)
  case (5 xs)
  from "5.prems" have "sequence (map (\<lambda>x. if x = JNull then Inr [] else ToString x) xs) = Inl e"
    by (simp add: bind_def split: sum.splits)
  then obtain x where "x \<in> set xs" "(if x = JNull then Inr [] else ToString x) = Inl e"
    by (blast dest: sequence_map_Inl)
  then have "x \<in> set xs" "x \<noteq> JNull" "ToString x = Inl e"
    by (simp_all split: if_splits)
  then show ?case by (rule "5.IH")
qed (simp_all split: if_splits)

lemma ToStringU_TypeError: "ToStringU v = Inl e \<Longrightarrow> e = TypeError"
  by (cases v) (simp_all add: ToString_TypeError)

lemma subst_TypeError: "subst t k = Inl e \<Longrightarrow> e = TypeError"
  by (auto simp: subst_def bind_def split: sum.splits dest: js_get_TypeError ToStringU_TypeError)

lemma name_value_entry_TypeError: "name_value_entry t = Inl e \<Longrightarrow> e = TypeError"
  by (auto simp: name_value_entry_def bind_def split: sum.splits dest: subst_TypeError)

lemma typography_entry_TypeError: "typography_entry t = Inl e \<Longrightarrow> e = TypeError"
  by (auto simp: typography_entry_def bind_def split: sum.splits dest: subst_TypeError)

lemma js_map_not_array:
  "\<not> (case v of Some (JArr xs) \<Rightarrow> True | _ \<Rightarrow> False) \<Longrightarrow> js_map f v = Inl TypeError"
  by (cases "(f, v)" rule: js_map.cases) simp_all

lemma js_map_TypeError:
  assumes "\<And>t e. f t = Inl e \<Longrightarrow> e = TypeError" and "js_map f v = Inl e"
  shows "e = TypeError"
proof (cases "case v of Some (JArr xs) \<Rightarrow> True | _ \<Rightarrow> False")
  case False
  then have "js_map f v = Inl TypeError" by (rule js_map_not_array)
  with assms(2) show ?thesis by simp
next
  case True
  then obtain xs where "v = Some (JArr xs)"
    by (auto split: option.splits json.splits)
  with assms(2) have "sequence (map f xs) = Inl e" by simp
  then obtain x where "f x = Inl e" by (blast dest: sequence_map_Inl)
  then show ?thesis by (rule assms(1))
qed

lemma bind_js_map_TypeError:
  assumes "\<And>t e. f t = Inl e \<Longrightarrow> e = TypeError"
    and "\<And>e. m = Inl e \<Longrightarrow> e = TypeError"
    and "bind m (js_map f) = Inl e"
  shows "e = TypeError"
proof (cases m)
  case (Inl e')
  with assms(3) have "e = e'" by (simp add: bind_def)
  with Inl assms(2) show ?thesis by simp
next
  case (Inr v)
  with assms(3) have "js_map f v = Inl e" by (simp add: bind_def)
  with assms(1) show ?thesis by (rule js_map_TypeError)
qed

lemma colors_map_TypeError: "colors_map tokens = Inl e \<Longrightarrow> e = TypeError"
  unfolding colors_map_def
  by (erule bind_js_map_TypeError[rotated 2]) (simp_all add: name_value_entry_TypeError js_get_TypeError)

lemma typography_map_TypeError: "typography_map tokens = Inl e \<Longrightarrow> e = TypeError"
  unfolding typography_map_def
  by (erule bind_js_map_TypeError[rotated 2]) (simp_all add: typography_entry_TypeError js_get_TypeError)

lemma spacingTokens_TypeError: "spacingTokens tokens = Inl e \<Longrightarrow> e = TypeError"
  by (auto simp: spacingTokens_def bind_def split: sum.splits dest: js_get_TypeError)

lemma spacing_map_TypeError: "spacing_map tokens = Inl e \<Longrightarrow> e = TypeError"
  unfolding spacing_map_def
  by (erule bind_js_map_TypeError[rotated 2])
     (simp_all add: name_value_entry_TypeError spacingTokens_TypeError)

lemma effects_map_TypeError: "effects_map tokens = Inl e \<Longrightarrow> e = TypeError"
  unfolding effects_map_def
  by (erule bind_js_map_TypeError[rotated 2]) (simp_all add: name_value_entry_TypeError js_get_TypeError)

lemma no_array_map:
  assumes "\<not> has_array tokens k"
  shows "bind (js_get (Some tokens) k) (js_map f) = Inl TypeError"
proof (cases "js_get (Some tokens) k")
  case (Inl e)
  then show ?thesis by (simp add: bind_def js_get_TypeError)
next
  case (Inr v)
  with assms have "\<not> (case v of Some (JArr xs) \<Rightarrow> True | _ \<Rightarrow> False)"
    by (simp add: has_array_def)
  then show ?thesis by (simp add: Inr bind_def js_map_not_array)
qed

lemma generate_modules_TypeError:
  "fst (generate_modules tokens w) = Uncaught e \<Longrightarrow> e = TypeError"
  by (auto simp: generate_modules_unfold split: sum.splits
      dest: colors_map_TypeError typography_map_TypeError spacing_map_TypeError
        effects_map_TypeError)

lemma missing_array_status:
  assumes "\<not> has_array tokens ''colors'' \<or> \<not> has_array tokens ''typography'' \<or>
     \<not> has_array tokens ''effects''"
  shows "fst (generate_modules tokens w) = Uncaught TypeError"
proof -
  from assms have "colors_map tokens = Inl TypeError \<or> typography_map tokens = Inl TypeError \<or>
      effects_map tokens = Inl TypeError"
    by (auto simp: colors_map_def typography_map_def effects_map_def no_array_map)
  then have "fst (generate_modules tokens w) \<noteq> Completed"
    by (auto simp: generate_modules_unfold split: sum.splits)
  then obtain e where "fst (generate_modules tokens w) = Uncaught e"
    by (auto simp: generate_modules_unfold split: sum.splits)
  then show ?thesis by (simp add: generate_modules_TypeError)
qed

subsection \<open>The concrete documents\<close>

lemmas script_defs =
  generate_tokens_def generate_modules_def and_then_def generate_colors_def
  generate_typography_def generate_spacing_def generate_effects_def colors_map_def
  typography_map_def spacing_map_def effects_map_def spacingTokens_def name_value_entry_def
  typography_entry_def subst_def bind_def own_property_def

lemma parse_sample_simps:
  "parse_sample scenario_text = Some scenario_tokens"
  "parse_sample sample_text = Some sample_tokens"
  "parse_sample ''{}'' = Some (JObj [])"
  "parse_sample no_effects_text = Some no_effects_tokens"
  "parse_sample no_spacing_text = Some no_spacing_tokens"
  "parse_sample ''{'' = None"
  by (simp_all add: parse_sample_def scenario_text_def sample_text_def no_effects_text_def
      no_spacing_text_def)

subsection \<open>Runs of the script\<close>

lemma run_tokens_again:
  "run_tokens JSON_parse (files (snd (run_tokens JSON_parse fs))) = run_tokens JSON_parse fs"
proof (cases "fs tokensFile")
  case None
  then show ?thesis
    by (simp add: run_tokens_def generate_tokens_def fresh_def console_error_def)
next
  case (Some body)
  show ?thesis
  proof (cases "JSON_parse body")
    case None
    with Some show ?thesis
      by (simp add: run_tokens_def generate_tokens_def fresh_def)
  next
    case (Some tokens)
    obtain st ws ms where g: "\<And>w. generate_modules tokens w = (st, perform ws ms w)"
      and ps: "set (map fst ws) \<subseteq> set token_paths"
      using uniform_generate_modules[of tokens] unfolding uniform_def by blast
    have first: "run_tokens JSON_parse fs = (st, perform ws ms (fresh fs))"
      using \<open>fs tokensFile = Some body\<close> Some
      by (simp add: run_tokens_def generate_tokens_def g fresh_def)
    have "files (perform ws ms (fresh fs)) tokensFile = Some body"
      using files_perform_outside[OF ps tokensFile_not_token_path] \<open>fs tokensFile = Some body\<close>
      by (simp add: fresh_def)
    then have "run_tokens JSON_parse (files (perform ws ms (fresh fs))) =
        (st, perform ws ms (fresh (files (perform ws ms (fresh fs)))))"
      using Some by (simp add: run_tokens_def generate_tokens_def g fresh_def)
    then show ?thesis by (simp add: first perform_fresh_twice)
  qed
qed

lemma generate_tokens_frame:
  assumes "p \<notin> set token_paths"
  shows "files (snd (generate_tokens JSON_parse w)) p = files w p"
proof -
  have "files (snd (generate_modules tokens w)) p = files w p" for tokens
  proof -
    obtain st ws ms where g: "\<And>w. generate_modules tokens w = (st, perform ws ms w)"
      and ps: "set (map fst ws) \<subseteq> set token_paths"
      using uniform_generate_modules[of tokens] unfolding uniform_def by blast
    show ?thesis by (simp add: g files_perform_outside[OF ps assms])
  qed
  then show ?thesis
    by (simp add: generate_tokens_def console_error_def split: option.splits)
qed

lemma sample_run:
  "run_tokens parse_sample [tokensFile \<mapsto> sample_text] =
     generate_modules sample_tokens (fresh [tokensFile \<mapsto> sample_text])"
  by (simp add: run_tokens_def generate_tokens_def fresh_def parse_sample_simps)

lemma sample_maps:
  "colors_map sample_tokens = Inr [''  'primary': '#3B82F6','', ''  'accent': '#F59E0B','']"
  "typography_map sample_tokens =
     Inr [''  'body': {'' @ nl @ ''    fontFamily: 'Inter','' @ nl @ ''    fontSize: '16px','' @ nl @
          ''    fontWeight: 400,'' @ nl @ ''    lineHeight: '24px','' @ nl @ ''  },'']"
  "spacing_map sample_tokens = Inr [''  'md': '16px','']"
  "effects_map sample_tokens = Inr []"
  by (simp_all add: colors_map_def typography_map_def spacing_map_def effects_map_def
      spacingTokens_def name_value_entry_def typography_entry_def subst_def bind_def
      own_property_def sample_tokens_def quote_def)


lemma scenario_run:
  "run_tokens parse_sample [tokensFile \<mapsto> scenario_text] =
     generate_modules scenario_tokens (fresh [tokensFile \<mapsto> scenario_text])"
  by (simp add: run_tokens_def generate_tokens_def fresh_def parse_sample_simps)

lemma scenario_maps:
  "colors_map scenario_tokens = Inr [''  'primary': '#3B82F6','']"
  "typography_map scenario_tokens = Inl TypeError"
  by (simp_all add: colors_map_def typography_map_def name_value_entry_def subst_def bind_def
      own_property_def scenario_tokens_def quote_def)

subsection \<open>The component script\<close>

lemma generate_components_outcome:
  "generate_components w = (Completed, w\<lparr>console := console w @
     [(Stdout, package_mark @ '' Component generation''),
      (Stdout, nl @ ''This script would generate component stubs from screen exports.''),
      (Stdout, ''Currently implemented in bootstrap.js for Bootstrap mode.''),
      (Stdout, nl @ ''For Screen Export mode, this would:''),
      (Stdout, ''1. Read screen-export.json''),
      (Stdout, ''2. Generate screen component files''),
      (Stdout, ''3. Map component instances to catalog references''),
      (Stdout, nl @ ''To be implemented in future iterations.'')]\<rparr>)"
  by (simp add: generate_components_def console_log_def)

subsection \<open>The text of the modules\<close>

lemma js_join_lines:
  "js_join sep ls @ sep = (if ls = [] then sep else concat (map (\<lambda>l. l @ sep) ls))"
  by (induction sep ls rule: js_join.induct) simp_all

lemma colorsContent_text:
  "colorsContent cl =
     ''/**\<newline>'' @
     '' * Color Tokens\<newline>'' @
     '' * Generated from design-tokens.json\<newline>'' @
     '' * DO NOT EDIT: This file is auto-generated\<newline>'' @
     '' */\<newline>'' @
     ''\<newline>'' @
     ''export const colors = {\<newline>'' @
     (if cl = [] then ''\<newline>'' else concat (map (\<lambda>l. l @ ''\<newline>'') cl)) @
     ''} as const;\<newline>'' @
     ''\<newline>'' @
     ''export type ColorToken = keyof typeof colors;\<newline>''"
  using js_join_lines [of nl cl] by (simp add: colorsContent_def template_def nl_def)






subsection \<open>The script on a file system whose calls can fail\<close>

















section \<open>Token generation: the claims\<close>

text \<open>
  C4. Given the token document \<^verbatim>\<open>{colors:[{name:"primary", value:"#3B82F6"}]}\<close>, the
  script writes \<^verbatim>\<open>src/tokens/colors.ts\<close>, and the module it writes exports the
  mapping \<^verbatim>\<open>'primary': '#3B82F6'\<close>: the text of the file is the one below, whose
  object literal \<^verbatim>\<open>colors\<close> has that one property. It is the only write of the run
  (which then dies at the typography the document lacks).
\<close>

theorem scenario_colors_module:
  assumes "files w tokensFile = Some body" and "JSON_parse body = Some scenario_tokens"
  shows "files (snd (generate_tokens JSON_parse w)) ''src/tokens/colors.ts'' =
     Some (''/**\<newline>'' @
           '' * Color Tokens\<newline>'' @
           '' * Generated from design-tokens.json\<newline>'' @
           '' * DO NOT EDIT: This file is auto-generated\<newline>'' @
           '' */\<newline>'' @
           ''\<newline>'' @
           ''export const colors = {\<newline>'' @
           ''  'primary': '#3B82F6',\<newline>'' @
           ''} as const;\<newline>'' @
           ''\<newline>'' @
           ''export type ColorToken = keyof typeof colors;\<newline>'') \<and>
   writes (snd (generate_tokens JSON_parse w)) =
     writes w @
     [(''src/tokens/colors.ts'',
       ''/**\<newline>'' @
       '' * Color Tokens\<newline>'' @
       '' * Generated from design-tokens.json\<newline>'' @
       '' * DO NOT EDIT: This file is auto-generated\<newline>'' @
       '' */\<newline>'' @
       ''\<newline>'' @
       ''export const colors = {\<newline>'' @
       ''  'primary': '#3B82F6',\<newline>'' @
       ''} as const;\<newline>'' @
       ''\<newline>'' @
       ''export type ColorToken = keyof typeof colors;\<newline>'')]"
  using assms
  by (simp add: generate_tokens_def generate_modules_unfold scenario_maps files_perform_last
      writes_perform colorsContent_text)

text \<open>The scenario's document in \<^verbatim>\<open>design-tokens.json\<close>, nothing else on disk.\<close>

theorem scenario_colors_module_witness:
  "files (fresh [tokensFile \<mapsto> scenario_text]) tokensFile = Some scenario_text \<and>
   parse_sample scenario_text = Some scenario_tokens \<and>
   files (snd (generate_tokens parse_sample (fresh [tokensFile \<mapsto> scenario_text])))
     ''src/tokens/colors.ts'' =
     Some (''/**\<newline>'' @
           '' * Color Tokens\<newline>'' @
           '' * Generated from design-tokens.json\<newline>'' @
           '' * DO NOT EDIT: This file is auto-generated\<newline>'' @
           '' */\<newline>'' @
           ''\<newline>'' @
           ''export const colors = {\<newline>'' @
           ''  'primary': '#3B82F6',\<newline>'' @
           ''} as const;\<newline>'' @
           ''\<newline>'' @
           ''export type ColorToken = keyof typeof colors;\<newline>'') \<and>
   writes (snd (generate_tokens parse_sample (fresh [tokensFile \<mapsto> scenario_text]))) =
     [(''src/tokens/colors.ts'',
       ''/**\<newline>'' @
       '' * Color Tokens\<newline>'' @
       '' * Generated from design-tokens.json\<newline>'' @
       '' * DO NOT EDIT: This file is auto-generated\<newline>'' @
       '' */\<newline>'' @
       ''\<newline>'' @
       ''export const colors = {\<newline>'' @
       ''  'primary': '#3B82F6',\<newline>'' @
       ''} as const;\<newline>'' @
       ''\<newline>'' @
       ''export type ColorToken = keyof typeof colors;\<newline>'')]"
proof -
  have f: "files (fresh [tokensFile \<mapsto> scenario_text]) tokensFile = Some scenario_text"
    by (simp add: fresh_def)
  have p: "parse_sample scenario_text = Some scenario_tokens"
    by (simp add: parse_sample_simps)
  have w: "writes (fresh [tokensFile \<mapsto> scenario_text]) = []"
    by (simp add: fresh_def)
  from f p w scenario_colors_module [where JSON_parse = parse_sample, OF f p]
  show ?thesis by simp
qed









lemma sample_run_writes:
  "map fst (writes (snd (run_tokens parse_sample [tokensFile \<mapsto> sample_text]))) = token_paths"
  by (simp add: sample_run generate_modules_unfold sample_maps writes_perform fresh_def
      token_paths_def)

text \<open>
  C3, as amended. A second run of the token script on the file system the first run left
  ends in the same status and leaves every file byte-identical; it performs the same
  writes and prints the same messages as the first. (Each module a run writes is written
  again with the same content: the script writes without comparing.) The component script
  changes no file and writes none, on any run.
\<close>

theorem second_run_same_outcome:
  "run_tokens JSON_parse (files (snd (run_tokens JSON_parse fs))) = run_tokens JSON_parse fs \<and>
   files (snd (run_tokens JSON_parse (files (snd (run_tokens JSON_parse fs))))) =
     files (snd (run_tokens JSON_parse fs)) \<and>
   files (snd (generate_components w)) = files w \<and>
   writes (snd (generate_components w)) = writes w"
  by (simp add: run_tokens_again generate_components_outcome)

text \<open>
  C3 as stated fails in "no file is rewritten": on the document with all four arrays the
  second run writes the four modules again, though it changes no file.
\<close>

theorem second_run_rewrites_counterexample:
  "map fst (writes (snd (run_tokens parse_sample
      (files (snd (run_tokens parse_sample [tokensFile \<mapsto> sample_text])))))) = token_paths \<and>
   files (snd (run_tokens parse_sample
      (files (snd (run_tokens parse_sample [tokensFile \<mapsto> sample_text]))))) =
   files (snd (run_tokens parse_sample [tokensFile \<mapsto> sample_text]))"
  by (simp add: run_tokens_again sample_run_writes)

lemma run_tokens_outcome:
  "exit_code (fst (run_tokens JSON_parse fs)) =
     (if fst (run_tokens JSON_parse fs) = Completed then 0 else 1) \<and>
   (fst (run_tokens JSON_parse fs) = Completed) =
     (map fst (writes (snd (run_tokens JSON_parse fs))) = token_paths) \<and>
   (fs tokensFile = None \<longrightarrow>
      run_tokens JSON_parse fs =
        (Exited 1, console_error (cross_mark @ '' design-tokens.json not found'') (fresh fs))) \<and>
   (\<forall>body. fs tokensFile = Some body \<longrightarrow> JSON_parse body = None \<longrightarrow>
      run_tokens JSON_parse fs = (Uncaught SyntaxError, fresh fs)) \<and>
   (\<forall>body tokens. fs tokensFile = Some body \<longrightarrow> JSON_parse body = Some tokens \<longrightarrow>
      fst (run_tokens JSON_parse fs) \<noteq> Completed \<longrightarrow>
      fst (run_tokens JSON_parse fs) = Uncaught TypeError)"
proof (cases "fs tokensFile")
  case None
  then show ?thesis
    by (simp add: run_tokens_def generate_tokens_def fresh_def console_error_def token_paths_def)
next
  case (Some body)
  show ?thesis
  proof (cases "JSON_parse body")
    case None
    with Some show ?thesis
      by (simp add: run_tokens_def generate_tokens_def fresh_def token_paths_def)
  next
    case (Some tokens)
    with \<open>fs tokensFile = Some body\<close>
    have r: "run_tokens JSON_parse fs = generate_modules tokens (fresh fs)"
      by (simp add: run_tokens_def generate_tokens_def fresh_def)
    have "fst (generate_modules tokens (fresh fs)) = Uncaught TypeError"
      if "fst (generate_modules tokens (fresh fs)) \<noteq> Completed"
    proof -
      from that obtain e where "fst (generate_modules tokens (fresh fs)) = Uncaught e"
        by (auto simp: generate_modules_unfold split: sum.splits)
      then show ?thesis by (simp add: generate_modules_TypeError)
    qed
    then show ?thesis
      using \<open>fs tokensFile = Some body\<close> Some generate_modules_status[of tokens "fresh fs"]
        generate_modules_exit_code[of tokens "fresh fs"]
      by (simp add: r) (simp add: fresh_def)
  qed
qed




text \<open>
  C2, as amended. The script has no validation stage. When \<^verbatim>\<open>design-tokens.json\<close>
  is missing, when \<^verbatim>\<open>JSON.parse\<close> rejects its text, or when the colors of the
  document cannot be rendered (\<^verbatim>\<open>tokens.colors.map(...)\<close> throws), the run aborts
  with exit code 1 before any output file is written: it makes no write and every file is
  as before.
\<close>

theorem abort_before_first_write:
  assumes "fs tokensFile = None \<or>
     (\<exists>body. fs tokensFile = Some body \<and>
        (JSON_parse body = None \<or>
         (\<exists>tokens e. JSON_parse body = Some tokens \<and> colors_map tokens = Inl e)))"
  shows "exit_code (fst (run_tokens JSON_parse fs)) = 1 \<and>
     files (snd (run_tokens JSON_parse fs)) = fs \<and>
     writes (snd (run_tokens JSON_parse fs)) = []"
  using assms
  by (auto simp: run_tokens_def generate_tokens_def fresh_def console_error_def
      generate_modules_unfold)

text \<open>
  The three cases: no file; a text that is not JSON; the empty object, whose colors are
  missing.
\<close>

theorem abort_before_first_write_witness:
  "(Map.empty :: string \<rightharpoonup> string) tokensFile = None \<and>
   exit_code (fst (run_tokens parse_sample Map.empty)) = 1 \<and>
   files (snd (run_tokens parse_sample Map.empty)) = Map.empty \<and>
   writes (snd (run_tokens parse_sample Map.empty)) = [] \<and>
   [tokensFile \<mapsto> ''{''] tokensFile = Some ''{'' \<and> parse_sample ''{'' = None \<and>
   exit_code (fst (run_tokens parse_sample [tokensFile \<mapsto> ''{''])) = 1 \<and>
   files (snd (run_tokens parse_sample [tokensFile \<mapsto> ''{''])) = [tokensFile \<mapsto> ''{''] \<and>
   writes (snd (run_tokens parse_sample [tokensFile \<mapsto> ''{''])) = [] \<and>
   [tokensFile \<mapsto> ''{}''] tokensFile = Some ''{}'' \<and> parse_sample ''{}'' = Some (JObj []) \<and>
   colors_map (JObj []) = Inl TypeError \<and>
   exit_code (fst (run_tokens parse_sample [tokensFile \<mapsto> ''{}''])) = 1 \<and>
   files (snd (run_tokens parse_sample [tokensFile \<mapsto> ''{}''])) = [tokensFile \<mapsto> ''{}''] \<and>
   writes (snd (run_tokens parse_sample [tokensFile \<mapsto> ''{}''])) = []"
proof -
  have c: "colors_map (JObj []) = Inl TypeError"
    by (simp add: colors_map_def bind_def own_property_def)
  have 1: "(Map.empty :: string \<rightharpoonup> string) tokensFile = None \<or>
     (\<exists>body. (Map.empty :: string \<rightharpoonup> string) tokensFile = Some body \<and>
        (parse_sample body = None \<or>
         (\<exists>tokens e. parse_sample body = Some tokens \<and> colors_map tokens = Inl e)))"
    by simp
  have 2: "[tokensFile \<mapsto> ''{''] tokensFile = None \<or>
     (\<exists>body. [tokensFile \<mapsto> ''{''] tokensFile = Some body \<and>
        (parse_sample body = None \<or>
         (\<exists>tokens e. parse_sample body = Some tokens \<and> colors_map tokens = Inl e)))"
    by (simp add: parse_sample_simps)
  have 3: "[tokensFile \<mapsto> ''{}''] tokensFile = None \<or>
     (\<exists>body. [tokensFile \<mapsto> ''{}''] tokensFile = Some body \<and>
        (parse_sample body = None \<or>
         (\<exists>tokens e. parse_sample body = Some tokens \<and> colors_map tokens = Inl e)))"
    by (simp add: parse_sample_simps c)
  show ?thesis
    using abort_before_first_write [where JSON_parse = parse_sample and fs = Map.empty, OF 1]
      abort_before_first_write
        [where JSON_parse = parse_sample and fs = "[tokensFile \<mapsto> ''{'']", OF 2]
      abort_before_first_write
        [where JSON_parse = parse_sample and fs = "[tokensFile \<mapsto> ''{}'']", OF 3] c
    by (simp add: parse_sample_simps)
qed

text \<open>
  C2 as stated fails: the scenario's document has no typography array, so it is not a
  valid token document; the run dies of a TypeError after it has written
  \<^verbatim>\<open>src/tokens/colors.ts\<close>, a file that did not exist before.
\<close>

theorem partial_output_counterexample:
  "\<not> has_array scenario_tokens ''typography'' \<and>
   fst (run_tokens parse_sample [tokensFile \<mapsto> scenario_text]) = Uncaught TypeError \<and>
   writes (snd (run_tokens parse_sample [tokensFile \<mapsto> scenario_text])) =
     [(''src/tokens/colors.ts'', colorsContent [''  'primary': '#3B82F6',''])] \<and>
   [tokensFile \<mapsto> scenario_text] ''src/tokens/colors.ts'' = None \<and>
   files (snd (run_tokens parse_sample [tokensFile \<mapsto> scenario_text])) ''src/tokens/colors.ts'' =
     Some (colorsContent [''  'primary': '#3B82F6',''])"
proof -
  have "\<not> has_array scenario_tokens ''typography''"
    by (simp add: has_array_def scenario_tokens_def own_property_def)
  moreover have "[tokensFile \<mapsto> scenario_text] ''src/tokens/colors.ts'' = None"
    by (simp add: tokensFile_def)
  ultimately show ?thesis
    by (simp add: scenario_run generate_modules_unfold scenario_maps writes_perform
        files_perform_last fresh_def)
qed

text \<open>The run writes a file exactly when the colors could be rendered.\<close>

lemma writes_iff_colors_rendered:
  "(writes (snd (run_tokens JSON_parse fs)) \<noteq> []) =
     (\<exists>body tokens cl. fs tokensFile = Some body \<and> JSON_parse body = Some tokens \<and>
        colors_map tokens = Inr cl)"
  by (auto simp: run_tokens_def generate_tokens_def fresh_def console_error_def
      generate_modules_unfold writes_perform split: option.splits sum.splits)

text \<open>
  C10, as amended. Only the spacing category is guarded: a spacing value that is absent
  (or otherwise falsy) is read as the empty array. A document without the colors, the
  typography or the effects array makes the script die of an uncaught TypeError. Without
  the colors array that happens before any write. Without the typography array, when the
  colors were rendered, it happens after \<^verbatim>\<open>colors.ts\<close> was written; without the
  effects array, when colors, typography and spacing were rendered, after the three
  earlier modules were written.
\<close>

theorem missing_array_failures:
  assumes "fs tokensFile = Some body" and "JSON_parse body = Some tokens"
  shows
   "(\<not> has_array tokens ''colors'' \<or> \<not> has_array tokens ''typography'' \<or>
       \<not> has_array tokens ''effects'' \<longrightarrow>
       fst (run_tokens JSON_parse fs) = Uncaught TypeError) \<and>
    (\<not> has_array tokens ''colors'' \<longrightarrow>
       run_tokens JSON_parse fs = (Uncaught TypeError, fresh fs)) \<and>
    (\<forall>cl. colors_map tokens = Inr cl \<longrightarrow> \<not> has_array tokens ''typography'' \<longrightarrow>
       writes (snd (run_tokens JSON_parse fs)) = [(''src/tokens/colors.ts'', colorsContent cl)]) \<and>
    (\<forall>cl yl sl. colors_map tokens = Inr cl \<longrightarrow> typography_map tokens = Inr yl \<longrightarrow>
       spacing_map tokens = Inr sl \<longrightarrow> \<not> has_array tokens ''effects'' \<longrightarrow>
       writes (snd (run_tokens JSON_parse fs)) =
         [(''src/tokens/colors.ts'', colorsContent cl),
          (''src/tokens/typography.ts'', typographyContent yl),
          (''src/tokens/spacing.ts'', spacingContent sl)]) \<and>
    (\<forall>v. js_get (Some tokens) ''spacing'' = Inr v \<longrightarrow> \<not> truthy v \<longrightarrow>
       spacingTokens tokens = Inr (Some (JArr [])) \<and> spacing_map tokens = Inr [])"
proof -
  have r: "run_tokens JSON_parse fs = generate_modules tokens (fresh fs)"
    using assms by (simp add: run_tokens_def generate_tokens_def fresh_def)
  have 1: "fst (run_tokens JSON_parse fs) = Uncaught TypeError"
    if "\<not> has_array tokens ''colors'' \<or> \<not> has_array tokens ''typography'' \<or>
       \<not> has_array tokens ''effects''"
    using that by (simp only: r missing_array_status)
  have 2: "run_tokens JSON_parse fs = (Uncaught TypeError, fresh fs)"
    if "\<not> has_array tokens ''colors''"
    using that no_array_map[of tokens "''colors''" name_value_entry]
    by (simp add: r generate_modules_unfold colors_map_def)
  have 3: "writes (snd (run_tokens JSON_parse fs)) = [(''src/tokens/colors.ts'', colorsContent cl)]"
    if "colors_map tokens = Inr cl" "\<not> has_array tokens ''typography''" for cl
    using that no_array_map[of tokens "''typography''" typography_entry]
    by (simp add: r generate_modules_unfold typography_map_def writes_perform fresh_def)
  have 4: "writes (snd (run_tokens JSON_parse fs)) =
         [(''src/tokens/colors.ts'', colorsContent cl),
          (''src/tokens/typography.ts'', typographyContent yl),
          (''src/tokens/spacing.ts'', spacingContent sl)]"
    if "colors_map tokens = Inr cl" "typography_map tokens = Inr yl" "spacing_map tokens = Inr sl"
      "\<not> has_array tokens ''effects''" for cl yl sl
    using that no_array_map[of tokens "''effects''" name_value_entry]
    by (simp add: r generate_modules_unfold effects_map_def writes_perform fresh_def)
  have 5: "spacingTokens tokens = Inr (Some (JArr [])) \<and> spacing_map tokens = Inr []"
    if "js_get (Some tokens) ''spacing'' = Inr v" "\<not> truthy v" for v
    using that by (simp add: spacing_map_def spacingTokens_def bind_def)
  from 1 2 3 4 5 show ?thesis by blast
qed

lemma empty_object_run:
  "run_tokens parse_sample [tokensFile \<mapsto> ''{}''] =
     generate_modules (JObj []) (fresh [tokensFile \<mapsto> ''{}''])"
  by (simp add: run_tokens_def generate_tokens_def fresh_def parse_sample_simps)

lemma empty_object_arrays:
  "\<not> has_array (JObj []) ''colors''" "\<not> has_array (JObj []) ''typography''"
  "\<not> has_array (JObj []) ''effects''"
  by (simp_all add: has_array_def own_property_def)

lemma no_effects_maps:
  "colors_map no_effects_tokens = Inr []" "typography_map no_effects_tokens = Inr []"
  "spacing_map no_effects_tokens = Inr []" "\<not> has_array no_effects_tokens ''effects''"
  by (simp_all add: colors_map_def typography_map_def spacing_map_def spacingTokens_def
      bind_def own_property_def no_effects_tokens_def has_array_def)

lemma no_spacing_maps:
  "colors_map no_spacing_tokens = Inr []" "typography_map no_spacing_tokens = Inr []"
  "js_get (Some no_spacing_tokens) ''spacing'' = Inr None"
  "effects_map no_spacing_tokens = Inr []"
  by (simp_all add: colors_map_def typography_map_def effects_map_def
      bind_def own_property_def no_spacing_tokens_def)

lemma scenario_no_typography: "\<not> has_array scenario_tokens ''typography''"
  by (simp add: has_array_def scenario_tokens_def own_property_def)

text \<open>
  The empty object (no colors), the scenario's document (colors, no typography), a
  document without effects, and one without spacing.
\<close>

theorem missing_array_failures_witness:
  "[tokensFile \<mapsto> ''{}''] tokensFile = Some ''{}'' \<and> parse_sample ''{}'' = Some (JObj []) \<and>
   \<not> has_array (JObj []) ''colors'' \<and>
   run_tokens parse_sample [tokensFile \<mapsto> ''{}''] =
     (Uncaught TypeError, fresh [tokensFile \<mapsto> ''{}'']) \<and>
   [tokensFile \<mapsto> scenario_text] tokensFile = Some scenario_text \<and>
   parse_sample scenario_text = Some scenario_tokens \<and>
   colors_map scenario_tokens = Inr [''  'primary': '#3B82F6',''] \<and>
   \<not> has_array scenario_tokens ''typography'' \<and>
   fst (run_tokens parse_sample [tokensFile \<mapsto> scenario_text]) = Uncaught TypeError \<and>
   writes (snd (run_tokens parse_sample [tokensFile \<mapsto> scenario_text])) =
     [(''src/tokens/colors.ts'', colorsContent [''  'primary': '#3B82F6',''])] \<and>
   [tokensFile \<mapsto> no_effects_text] tokensFile = Some no_effects_text \<and>
   parse_sample no_effects_text = Some no_effects_tokens \<and>
   colors_map no_effects_tokens = Inr [] \<and> typography_map no_effects_tokens = Inr [] \<and>
   spacing_map no_effects_tokens = Inr [] \<and> \<not> has_array no_effects_tokens ''effects'' \<and>
   fst (run_tokens parse_sample [tokensFile \<mapsto> no_effects_text]) = Uncaught TypeError \<and>
   writes (snd (run_tokens parse_sample [tokensFile \<mapsto> no_effects_text])) =
     [(''src/tokens/colors.ts'', colorsContent []),
      (''src/tokens/typography.ts'', typographyContent []),
      (''src/tokens/spacing.ts'', spacingContent [])] \<and>
   [tokensFile \<mapsto> no_spacing_text] tokensFile = Some no_spacing_text \<and>
   parse_sample no_spacing_text = Some no_spacing_tokens \<and>
   js_get (Some no_spacing_tokens) ''spacing'' = Inr None \<and> \<not> truthy None \<and>
   spacing_map no_spacing_tokens = Inr []"
proof -
  have f: "[tokensFile \<mapsto> b] tokensFile = Some b" for b :: string
    by simp
  note p = parse_sample_simps
  show ?thesis
    using
      missing_array_failures
        [where JSON_parse = parse_sample and fs = "[tokensFile \<mapsto> ''{}'']", OF f p(3)]
      missing_array_failures
        [where JSON_parse = parse_sample and fs = "[tokensFile \<mapsto> scenario_text]", OF f p(1)]
      missing_array_failures
        [where JSON_parse = parse_sample and fs = "[tokensFile \<mapsto> no_effects_text]", OF f p(4)]
      missing_array_failures
        [where JSON_parse = parse_sample and fs = "[tokensFile \<mapsto> no_spacing_text]", OF f p(5)]
    by (simp add: p empty_object_arrays scenario_maps scenario_no_typography no_effects_maps
        no_spacing_maps)
qed

text \<open>
  C10 as stated fails in its last part: the empty object is a document without the
  typography array (and without the effects array), and the script fails on it before
  any module has been written.
\<close>

theorem missing_typography_no_write_counterexample:
  "[tokensFile \<mapsto> ''{}''] tokensFile = Some ''{}'' \<and> parse_sample ''{}'' = Some (JObj []) \<and>
   \<not> has_array (JObj []) ''typography'' \<and> \<not> has_array (JObj []) ''effects'' \<and>
   fst (run_tokens parse_sample [tokensFile \<mapsto> ''{}'']) = Uncaught TypeError \<and>
   writes (snd (run_tokens parse_sample [tokensFile \<mapsto> ''{}''])) = []"
proof -
  have "colors_map (JObj []) = Inl TypeError"
    by (simp add: colors_map_def bind_def own_property_def)
  then show ?thesis
    by (simp add: empty_object_run generate_modules_unfold empty_object_arrays parse_sample_simps
        fresh_def)
qed

text \<open>Without spacing the script completes and writes a spacing module with no entry.\<close>

lemma no_spacing_completes:
  "fst (run_tokens parse_sample [tokensFile \<mapsto> no_spacing_text]) = Completed \<and>
   files (snd (run_tokens parse_sample [tokensFile \<mapsto> no_spacing_text])) ''src/tokens/spacing.ts'' =
     Some (spacingContent [])"
proof -
  have "spacing_map no_spacing_tokens = Inr []"
    by (simp add: spacing_map_def spacingTokens_def bind_def own_property_def no_spacing_tokens_def)
  then show ?thesis
    by (simp add: run_tokens_def generate_tokens_def fresh_def parse_sample_simps
        generate_modules_unfold no_spacing_maps files_perform_last)
qed

section \<open>Component generation and the fallback pattern: the claims\<close>

lemma no_conflict_in_messages:
  "\<not> contains ''ManualEditConflict'' (package_mark @ '' Component generation'')"
  "\<not> contains ''ManualEditConflict''
      (nl @ ''This script would generate component stubs from screen exports.'')"
  "\<not> contains ''ManualEditConflict'' ''Currently implemented in bootstrap.js for Bootstrap mode.''"
  "\<not> contains ''ManualEditConflict'' (nl @ ''For Screen Export mode, this would:'')"
  "\<not> contains ''ManualEditConflict'' ''1. Read screen-export.json''"
  "\<not> contains ''ManualEditConflict'' ''2. Generate screen component files''"
  "\<not> contains ''ManualEditConflict'' ''3. Map component instances to catalog references''"
  "\<not> contains ''ManualEditConflict'' (nl @ ''To be implemented in future iterations.'')"
  by (simp_all add: package_mark_def nl_def)

lemma generate_components_reports:
  "conflict_reports path (snd (generate_components w)) = conflict_reports path w"
  by (simp add: generate_components_outcome conflict_reports_def no_conflict_in_messages)

lemma generate_components_touches_nothing:
  "fst (generate_components w) = Completed \<and>
   files (snd (generate_components w)) = files w \<and>
   writes (snd (generate_components w)) = writes w \<and>
   conflict_reports path (snd (generate_components w)) = conflict_reports path w"
  by (simp add: generate_components_reports) (simp add: generate_components_outcome)


text \<open>
  C7, as amended. For a styled value whose \<^verbatim>\<open>tokenName\<close> is a non-empty name that
  exists in the token module, the pattern gives the token's value
  \<^verbatim>\<open>colors[tokenName]\<close>, whatever the literal is. (An empty \<^verbatim>\<open>tokenName\<close> is
  falsy and counts as no binding.)
\<close>

theorem token_preferred_over_literal:
  assumes "tokenName sv = Some n" and "n \<noteq> []" and "colors n = Some c"
  shows "backgroundColor colors (Some sv) = Some c"
  using assms by (simp add: backgroundColor_def)

text \<open>A styled value bound to the token \<^verbatim>\<open>primary\<close> and carrying another literal.\<close>

theorem token_preferred_over_literal_witness:
  "tokenName \<lparr>val = Some (JStr ''#FFFFFF''), tokenName = Some ''primary''\<rparr> = Some ''primary'' \<and>
   ''primary'' \<noteq> [] \<and>
   [''primary'' \<mapsto> JStr ''#3B82F6''] ''primary'' = Some (JStr ''#3B82F6'') \<and>
   backgroundColor [''primary'' \<mapsto> JStr ''#3B82F6'']
     (Some \<lparr>val = Some (JStr ''#FFFFFF''), tokenName = Some ''primary''\<rparr>) =
   Some (JStr ''#3B82F6'')"
proof -
  have 1: "tokenName \<lparr>val = Some (JStr ''#FFFFFF''), tokenName = Some ''primary''\<rparr> = Some ''primary''"
    by simp
  have 2: "''primary'' \<noteq> []" by simp
  have 3: "[''primary'' \<mapsto> JStr ''#3B82F6''] ''primary'' = Some (JStr ''#3B82F6'')" by simp
  from 1 2 3
    token_preferred_over_literal
      [where colors = "[''primary'' \<mapsto> JStr ''#3B82F6'']", OF 1 2 3]
  show ?thesis by simp
qed

text \<open>
  C7 as stated fails for the empty name: a token named \<^verbatim>\<open>""\<close> exists in the module,
  the styled value names it and carries a literal, and the pattern gives the literal.
\<close>

theorem empty_token_name_counterexample:
  "tokenName \<lparr>val = Some (JStr ''#FFFFFF''), tokenName = Some ''''\<rparr> = Some '''' \<and>
   val \<lparr>val = Some (JStr ''#FFFFFF''), tokenName = Some ''''\<rparr> = Some (JStr ''#FFFFFF'') \<and>
   ['''' \<mapsto> JStr ''#000000''] '''' = Some (JStr ''#000000'') \<and>
   backgroundColor ['''' \<mapsto> JStr ''#000000'']
     (Some \<lparr>val = Some (JStr ''#FFFFFF''), tokenName = Some ''''\<rparr>) =
   Some (JStr ''#FFFFFF'')"
  by (simp add: backgroundColor_def)

section \<open>Dependency order: cycles\<close>

lemma edges_iff: "(a, b) \<in> set (edges es) \<longleftrightarrow> a \<in> set es \<and> b \<in> set es \<and> references a b"
  by (auto simp: edges_def)

lemma on_cycle_successor:
  assumes "on_cycle es e"
  obtains b where "(e, b) \<in> set (edges es)" "on_cycle es b"
proof -
  from assms have "(e, e) \<in> (set (edges es))\<^sup>+" by (simp add: on_cycle_def)
  then obtain b where eb: "(e, b) \<in> set (edges es)" and be: "(b, e) \<in> (set (edges es))\<^sup>*"
    by (meson converse_tranclE rtrancl_eq_or_trancl tranclD)
  from be eb have "(b, b) \<in> (set (edges es))\<^sup>+"
    by (rule rtrancl_into_trancl1)
  then show ?thesis using eb by (auto intro: that simp: on_cycle_def)
qed

lemma cycle_never_ready:
  assumes "on_cycle es e" and S: "\<forall>x\<in>set es. on_cycle es x \<longrightarrow> x \<in> set remaining"
  shows "\<not> is_ready remaining e"
proof -
  from assms(1) obtain b where b: "(e, b) \<in> set (edges es)" "on_cycle es b"
    by (rule on_cycle_successor)
  then have "b \<in> set es" "references e b" by (simp_all add: edges_iff)
  with b(2) S have "b \<in> set (filter (references e) remaining)" by simp
  then show ?thesis by (auto simp: is_ready_def filter_empty_conv)
qed

lemma on_cycle_within:
  assumes S: "\<forall>x\<in>set es. on_cycle es x \<longrightarrow> x \<in> set remaining"
    and "(a, b) \<in> (set (edges es))\<^sup>+" and "(b, a) \<in> (set (edges es))\<^sup>*"
  shows "(a, b) \<in> (set (edges remaining))\<^sup>+"
  using assms(2,3)
proof (induction rule: trancl_induct)
  case (base b)
  then have "(a, a) \<in> (set (edges es))\<^sup>+" "(b, b) \<in> (set (edges es))\<^sup>+"
    by (auto intro: rtrancl_into_trancl2 rtrancl_into_trancl1)
  with base S have "a \<in> set remaining" "b \<in> set remaining" "references a b"
    by (auto simp: on_cycle_def edges_iff dest: tranclD)
  then show ?case by (auto simp: edges_iff)
next
  case (step b c)
  from step.hyps(2) step.prems have ba: "(b, a) \<in> (set (edges es))\<^sup>*"
    by (rule converse_rtrancl_into_rtrancl)
  then have ab: "(a, b) \<in> (set (edges remaining))\<^sup>+" by (rule step.IH)
  from step.hyps(1) ba have "(b, b) \<in> (set (edges es))\<^sup>+"
    by (meson rtrancl_trancl_trancl)
  moreover from step.prems step.hyps(1,2) have "(c, c) \<in> (set (edges es))\<^sup>+"
    by (meson rtrancl_trancl_trancl trancl.trancl_into_trancl)
  ultimately have "b \<in> set remaining" "c \<in> set remaining" "references b c"
    using S step.hyps(2) by (auto simp: on_cycle_def edges_iff)
  then have "(b, c) \<in> set (edges remaining)" by (simp add: edges_iff)
  with ab show ?case by (rule trancl.trancl_into_trancl)
qed

lemma on_cycle_remaining:
  assumes "\<forall>x\<in>set es. on_cycle es x \<longrightarrow> x \<in> set remaining" and "on_cycle es e"
  shows "on_cycle remaining e"
  using on_cycle_within[OF assms(1), of e e] assms(2) by (simp add: on_cycle_def)

lemma build_order_cycle:
  assumes "e \<in> set es" "on_cycle es e"
    and "\<forall>x\<in>set es. on_cycle es x \<longrightarrow> x \<in> set remaining"
  shows "\<exists>ns. build_order remaining placed = Inl (CyclicDependencyError ns) \<and>
    (\<forall>x\<in>set es. on_cycle es x \<longrightarrow> entry_name x \<in> set ns)"
  using assms(3)
proof (induction remaining placed rule: build_order.induct)
  case (1 remaining placed)
  from assms(1,2) "1.prems" have e: "e \<in> set remaining" by blast
  then have ne: "remaining \<noteq> []" by auto
  show ?case
  proof (cases "filter (is_ready remaining) remaining = []")
    case True
    have "entry_name x \<in> set (map entry_name (filter (on_cycle remaining) remaining))"
      if "x \<in> set es" "on_cycle es x" for x
      using that "1.prems" on_cycle_remaining[OF "1.prems"] by auto
    with ne True show ?thesis by (subst build_order.simps) simp
  next
    case False
    have "\<forall>x\<in>set es. on_cycle es x \<longrightarrow>
        x \<in> set (filter (\<lambda>e. \<not> is_ready remaining e) remaining)"
      using "1.prems" cycle_never_ready by auto
    from "1.IH"[OF ne False this] ne False show ?thesis
      by (subst build_order.simps) simp
  qed
qed

lemma xy_cycle:
  "on_cycle [x_entry, y_entry] x_entry" "on_cycle [x_entry, y_entry] y_entry"
proof -
  have xy: "(x_entry, y_entry) \<in> set (edges [x_entry, y_entry])"
    and yx: "(y_entry, x_entry) \<in> set (edges [x_entry, y_entry])"
    by (simp_all add: edges_iff references_def x_entry_def y_entry_def)
  from xy yx show "on_cycle [x_entry, y_entry] x_entry" "on_cycle [x_entry, y_entry] y_entry"
    unfolding on_cycle_def by (meson trancl.simps)+
qed

text \<open>
  C5. For every catalog with a dependency cycle among its entries the ordering fails
  with \<^verbatim>\<open>CyclicDependencyError\<close>, the error names every entry that is on a cycle,
  and the run ends with that error and the world as it was: nothing is written. The
  result holds no order, partial or other.
\<close>

theorem cyclic_catalog_rejected:
  assumes "e \<in> set catalog" and "on_cycle catalog e"
  shows "\<exists>ns. build_order catalog [] = Inl (CyclicDependencyError ns) \<and>
     (\<forall>x\<in>set catalog. on_cycle catalog x \<longrightarrow> entry_name x \<in> set ns) \<and>
     generate_artifacts emit catalog w = (Inl (CyclicDependencyError ns), w)"
proof -
  from build_order_cycle[OF assms, of catalog "[]"]
  obtain ns where "build_order catalog [] = Inl (CyclicDependencyError ns)"
    "\<forall>x\<in>set catalog. on_cycle catalog x \<longrightarrow> entry_name x \<in> set ns"
    by blast
  then show ?thesis by (auto simp: generate_artifacts_def)
qed

text \<open>The catalog X -> Y -> X, with a stage that would write one file per entry.\<close>

theorem cyclic_catalog_rejected_witness:
  "x_entry \<in> set [x_entry, y_entry] \<and> on_cycle [x_entry, y_entry] x_entry \<and>
   (\<exists>ns. build_order [x_entry, y_entry] [] = Inl (CyclicDependencyError ns) \<and>
      ''X'' \<in> set ns \<and> ''Y'' \<in> set ns \<and>
      generate_artifacts (\<lambda>order. fold (\<lambda>n. writeFileSync (''src/components/'' @ n) []) order)
        [x_entry, y_entry] (fresh Map.empty) =
      (Inl (CyclicDependencyError ns), fresh Map.empty))"
proof -
  have m: "x_entry \<in> set [x_entry, y_entry]" by simp
  from cyclic_catalog_rejected [OF m xy_cycle(1),
      of "\<lambda>order. fold (\<lambda>n. writeFileSync (''src/components/'' @ n) []) order" "fresh Map.empty"]
  obtain ns where ns: "build_order [x_entry, y_entry] [] = Inl (CyclicDependencyError ns)"
    "\<forall>x\<in>set [x_entry, y_entry]. on_cycle [x_entry, y_entry] x \<longrightarrow> entry_name x \<in> set ns"
    "generate_artifacts (\<lambda>order. fold (\<lambda>n. writeFileSync (''src/components/'' @ n) []) order)
        [x_entry, y_entry] (fresh Map.empty) =
      (Inl (CyclicDependencyError ns), fresh Map.empty)"
    by blast
  from ns(2) xy_cycle have "''X'' \<in> set ns" "''Y'' \<in> set ns"
    by (auto simp: x_entry_def y_entry_def)
  with m xy_cycle(1) ns(1,3) show ?thesis by blast
qed

section \<open>Stable naming\<close>

lemma normalize_name_known:
  "code_of reg x = Some c \<Longrightarrow> normalize_name cfg reg x = (c, reg)"
  by (auto simp: code_of_def normalize_name_def split: option.splits)

lemma code_of_append:
  "code_of (reg @ [a]) y =
     (case code_of reg y of Some c \<Rightarrow> Some c
      | None \<Rightarrow> if externalName a = y then Some (codeName a) else None)"
  by (induction reg) (simp_all add: code_of_def lookup_alias_def)

lemma normalize_name_records:
  "code_of (snd (normalize_name cfg reg x)) x = Some (fst (normalize_name cfg reg x))"
  by (cases "lookup_alias reg x")
     (simp_all add: normalize_name_def Let_def code_of_append, simp_all add: code_of_def)

lemma normalize_name_keeps:
  "code_of reg y = Some c \<Longrightarrow> code_of (snd (normalize_name cfg reg x)) y = Some c"
  by (cases "lookup_alias reg x") (simp_all add: normalize_name_def Let_def code_of_append)

lemma normalize_all_Cons:
  "normalize_all cfg reg (x # xs) =
     ((x, fst (normalize_name cfg reg x)) #
        fst (normalize_all cfg (snd (normalize_name cfg reg x)) xs),
      snd (normalize_all cfg (snd (normalize_name cfg reg x)) xs))"
  by (simp split: prod.splits)

lemma normalize_all_keeps:
  "code_of reg y = Some c \<Longrightarrow> code_of (snd (normalize_all cfg reg ns)) y = Some c"
proof (induction ns arbitrary: reg)
  case Nil
  then show ?case by simp
next
  case (Cons x xs)
  from Cons.prems have "code_of (snd (normalize_name cfg reg x)) y = Some c"
    by (rule normalize_name_keeps)
  then have "code_of (snd (normalize_all cfg (snd (normalize_name cfg reg x)) xs)) y = Some c"
    by (rule Cons.IH)
  then show ?case by (simp only: normalize_all_Cons snd_conv)
qed

lemma normalize_all_records:
  "x \<in> set ns \<Longrightarrow>
     \<exists>c. code_of (snd (normalize_all cfg reg ns)) x = Some c \<and>
         map_of (fst (normalize_all cfg reg ns)) x = Some c"
proof (induction ns arbitrary: reg)
  case Nil
  then show ?case by simp
next
  case (Cons n ns)
  show ?case
  proof (cases "x = n")
    case True
    have "code_of (snd (normalize_all cfg (snd (normalize_name cfg reg n)) ns)) n =
        Some (fst (normalize_name cfg reg n))"
      by (rule normalize_all_keeps) (rule normalize_name_records)
    with True show ?thesis by (simp add: normalize_all_Cons del: normalize_all.simps)
  next
    case False
    with Cons.prems have "x \<in> set ns" by simp
    from Cons.IH[OF this, of "snd (normalize_name cfg reg n)"] False show ?thesis
      by (simp add: normalize_all_Cons del: normalize_all.simps)
  qed
qed

lemma normalize_all_domain:
  "x \<notin> set ns \<Longrightarrow> map_of (fst (normalize_all cfg reg ns)) x = None"
  by (induction ns arbitrary: reg) (simp_all add: normalize_all_Cons del: normalize_all.simps(2))

lemma normalize_all_known:
  "\<forall>x\<in>set ms. code_of reg x \<noteq> None \<Longrightarrow>
     normalize_all cfg reg ms = (map (\<lambda>x. (x, the (code_of reg x))) ms, reg)"
  by (induction ms) (auto simp: normalize_name_known)

lemma map_of_known:
  "map_of (map (\<lambda>x. (x, f x)) ms) y = (if y \<in> set ms then Some (f y) else None)"
  by (induction ms) auto

lemma normalize_name_twice:
  "normalize_name cfg (snd (normalize_name cfg reg x)) x = normalize_name cfg reg x"
  using normalize_name_known[OF normalize_name_records, of cfg cfg reg x] by (simp add: prod_eq_iff)

lemma normalize_all_again:
  assumes "set ms = set ns"
  shows "snd (normalize_all cfg (snd (normalize_all cfg reg ns)) ms) = snd (normalize_all cfg reg ns)"
    and "map_of (fst (normalize_all cfg (snd (normalize_all cfg reg ns)) ms)) =
         map_of (fst (normalize_all cfg reg ns))"
proof -
  let ?reg1 = "snd (normalize_all cfg reg ns)"
  have k: "\<forall>x\<in>set ms. code_of ?reg1 x \<noteq> None"
    using assms normalize_all_records[of _ ns cfg reg] by fastforce
  have r: "normalize_all cfg ?reg1 ms = (map (\<lambda>x. (x, the (code_of ?reg1 x))) ms, ?reg1)"
    using k by (rule normalize_all_known)
  show "snd (normalize_all cfg ?reg1 ms) = ?reg1" by (simp add: r)
  show "map_of (fst (normalize_all cfg ?reg1 ms)) = map_of (fst (normalize_all cfg reg ns))"
  proof
    fix y
    show "map_of (fst (normalize_all cfg ?reg1 ms)) y = map_of (fst (normalize_all cfg reg ns)) y"
    proof (cases "y \<in> set ns")
      case True
      from normalize_all_records[OF True, of cfg reg]
      obtain c where "code_of ?reg1 y = Some c" "map_of (fst (normalize_all cfg reg ns)) y = Some c"
        by blast
      with True assms show ?thesis
        by (simp add: r map_of_known)
    next
      case False
      with assms show ?thesis by (simp add: r map_of_known normalize_all_domain)
    qed
  qed
qed

text \<open>A new identifier never collides with one the registry holds.\<close>

lemma digit_inj:
  assumes "i < 10" "j < 10" "''0123456789'' ! i = ''0123456789'' ! j"
  shows "i = j"
proof -
  have "distinct ''0123456789''" by simp
  moreover have "length ''0123456789'' = 10" by simp
  ultimately show ?thesis using assms by (simp add: nth_eq_iff_index_eq)
qed

lemma show_nat_nonempty: "show_nat n \<noteq> []"
  by (subst show_nat.simps) simp

lemma show_nat_small: "n < 10 \<Longrightarrow> show_nat n = [''0123456789'' ! n]"
  by (subst show_nat.simps) simp

lemma show_nat_large:
  "\<not> n < 10 \<Longrightarrow> show_nat n = show_nat (n div 10) @ [''0123456789'' ! (n mod 10)]"
  by (subst show_nat.simps) simp

lemma show_nat_inj: "show_nat n = show_nat m \<Longrightarrow> n = m"
proof (induction n arbitrary: m rule: show_nat.induct)
  case (1 n)
  show ?case
  proof (cases "n < 10")
    case True
    with "1.prems" have eq: "[''0123456789'' ! n] = show_nat m" by (simp add: show_nat_small)
    have "m < 10"
    proof (rule ccontr)
      assume "\<not> m < 10"
      with eq have "[''0123456789'' ! n] = show_nat (m div 10) @ [''0123456789'' ! (m mod 10)]"
        by (simp add: show_nat_large)
      then show False using show_nat_nonempty[of "m div 10"] by (cases "show_nat (m div 10)") auto
    qed
    with eq True show ?thesis by (auto simp: show_nat_small intro: digit_inj)
  next
    case False
    with "1.prems" have eq: "show_nat (n div 10) @ [''0123456789'' ! (n mod 10)] = show_nat m"
      by (simp add: show_nat_large)
    have m: "\<not> m < 10"
    proof
      assume "m < 10"
      with eq have "show_nat (n div 10) @ [''0123456789'' ! (n mod 10)] = [''0123456789'' ! m]"
        by (simp add: show_nat_small)
      then show False using show_nat_nonempty[of "n div 10"] by (cases "show_nat (n div 10)") auto
    qed
    with eq have "show_nat (n div 10) = show_nat (m div 10)"
      and d: "''0123456789'' ! (n mod 10) = ''0123456789'' ! (m mod 10)"
      by (simp_all add: show_nat_large)
    then have "n div 10 = m div 10" using "1.IH"[OF False] by blast
    moreover from d have "n mod 10 = m mod 10" by (intro digit_inj) simp_all
    ultimately show ?thesis by (metis div_mult_mod_eq)
  qed
qed

lemma candidates_distinct:
  "distinct (map (\<lambda>k. base @ show_nat k) [i ..< j])"
proof -
  have "inj_on (\<lambda>k. base @ show_nat k) (set [i ..< j])"
    by (rule inj_onI) (simp add: show_nat_inj)
  then show ?thesis by (simp add: distinct_map)
qed

lemma some_candidate_free:
  assumes "distinct cands" and "length taken < length cands"
  shows "\<exists>c. find (\<lambda>c. c \<notin> set taken) cands = Some c \<and> c \<notin> set taken"
proof -
  have "\<not> set cands \<subseteq> set taken"
  proof
    assume "set cands \<subseteq> set taken"
    then have "card (set cands) \<le> card (set taken)"
      by (rule card_mono[OF finite_set])
    also have "\<dots> \<le> length taken" by (rule card_length)
    finally show False using assms by (simp add: distinct_card)
  qed
  then obtain x where "x \<in> set cands" "x \<notin> set taken" by blast
  then have "find (\<lambda>c. c \<notin> set taken) cands \<noteq> None"
    by (auto simp: find_None_iff)
  then obtain c where c: "find (\<lambda>c. c \<notin> set taken) cands = Some c" by blast
  then have "c \<notin> set taken" by (auto simp: find_Some_iff)
  with c show ?thesis by blast
qed

lemma disambiguate_fresh: "disambiguate taken base \<notin> set taken"
proof (cases "base \<in> set taken")
  case False
  then show ?thesis by (simp add: disambiguate_def)
next
  case True
  have "length taken < length (map (\<lambda>k. base @ show_nat k) [2 ..< length taken + 3])"
    by simp
  with candidates_distinct obtain c
    where "find (\<lambda>c. c \<notin> set taken) (map (\<lambda>k. base @ show_nat k) [2 ..< length taken + 3]) = Some c"
      and "c \<notin> set taken"
    using some_candidate_free by blast
  with True show ?thesis by (simp add: disambiguate_def)
qed

lemma normalize_name_no_collision:
  assumes "lookup_alias reg ext = None"
  shows "fst (normalize_name cfg reg ext) \<notin> set (map codeName reg)"
  using assms disambiguate_fresh[of "map codeName reg" "sanitize cfg ext"]
  by (simp add: normalize_name_def Let_def)

text \<open>
  C6. The normalizer is idempotent: applied again to the same external name, with the
  registry as the first application left it, it gives the same identifier and leaves the
  registry as it is. Across runs: when the names of a catalog are normalized again, in any
  order, starting from the registry the first run left, every name gets the identifier
  it got in the first run and the registry stays as it is.
\<close>

theorem normalizer_stable:
  "normalize_name cfg (snd (normalize_name cfg reg x)) x = normalize_name cfg reg x \<and>
   (set ms = set ns \<longrightarrow>
      snd (normalize_all cfg (snd (normalize_all cfg reg ns)) ms) =
        snd (normalize_all cfg reg ns) \<and>
      map_of (fst (normalize_all cfg (snd (normalize_all cfg reg ns)) ms)) =
        map_of (fst (normalize_all cfg reg ns)))"
  using normalize_name_twice normalize_all_again by blast

lemma guide_first_run:
  "normalize_all guide_config [] [''Button'', ''DS/Button'', ''icon/arrow-left''] =
     ([(''Button'', ''Button''), (''DS/Button'', ''Button2''),
       (''icon/arrow-left'', ''IconArrowLeft'')],
      [\<lparr>externalName = ''Button'', codeName = ''Button'', isExternalLibrary = False\<rparr>,
       \<lparr>externalName = ''DS/Button'', codeName = ''Button2'', isExternalLibrary = False\<rparr>,
       \<lparr>externalName = ''icon/arrow-left'', codeName = ''IconArrowLeft'',
          isExternalLibrary = True\<rparr>])"
  by code_simp

text \<open>
  Two names that sanitize to the same identifier and an icon, normalized with the guide's
  rules and then again in another order.
\<close>

theorem normalizer_stable_witness:
  "set [''icon/arrow-left'', ''DS/Button'', ''Button''] =
     set [''Button'', ''DS/Button'', ''icon/arrow-left''] \<and>
   normalize_name guide_config (snd (normalize_name guide_config [] ''DS/Button'')) ''DS/Button'' =
     normalize_name guide_config [] ''DS/Button'' \<and>
   snd (normalize_all guide_config
          (snd (normalize_all guide_config [] [''Button'', ''DS/Button'', ''icon/arrow-left'']))
          [''icon/arrow-left'', ''DS/Button'', ''Button'']) =
     snd (normalize_all guide_config [] [''Button'', ''DS/Button'', ''icon/arrow-left'']) \<and>
   map_of (fst (normalize_all guide_config
          (snd (normalize_all guide_config [] [''Button'', ''DS/Button'', ''icon/arrow-left'']))
          [''icon/arrow-left'', ''DS/Button'', ''Button''])) ''DS/Button'' = Some ''Button2''"
proof -
  have s: "set [''icon/arrow-left'', ''DS/Button'', ''Button''] =
     set [''Button'', ''DS/Button'', ''icon/arrow-left'']"
    by auto
  note t = normalizer_stable [of guide_config "[]" "''DS/Button''"
      "[''icon/arrow-left'', ''DS/Button'', ''Button'']"
      "[''Button'', ''DS/Button'', ''icon/arrow-left'']"]
  from t have 1: "normalize_name guide_config (snd (normalize_name guide_config [] ''DS/Button''))
      ''DS/Button'' = normalize_name guide_config [] ''DS/Button''"
    by (rule conjunct1)
  from t s have 2: "snd (normalize_all guide_config
          (snd (normalize_all guide_config [] [''Button'', ''DS/Button'', ''icon/arrow-left'']))
          [''icon/arrow-left'', ''DS/Button'', ''Button'']) =
     snd (normalize_all guide_config [] [''Button'', ''DS/Button'', ''icon/arrow-left''])"
    and 3: "map_of (fst (normalize_all guide_config
          (snd (normalize_all guide_config [] [''Button'', ''DS/Button'', ''icon/arrow-left'']))
          [''icon/arrow-left'', ''DS/Button'', ''Button''])) =
     map_of (fst (normalize_all guide_config [] [''Button'', ''DS/Button'', ''icon/arrow-left'']))"
    by blast+
  have 4: "map_of (fst (normalize_all guide_config [] [''Button'', ''DS/Button'', ''icon/arrow-left'']))
      ''DS/Button'' = Some ''Button2''"
    by (simp only: guide_first_run fst_conv) simp
  from s 1 2 3 4 show ?thesis by (simp only: simp_thms)
qed

end
